theory Spec2Isabelle
  imports Main
begin

section \<open>Values of the Go runtime and library\<close>

text \<open>
  Go strings are byte sequences: \<open>string\<close> (a list of 8-bit characters) holds them
  byte for byte. An \<open>error\<close> value is either \<open>nil\<close> (\<open>None\<close>) or one of the
  errors below. A call either returns or panics; a panic unwinds every caller.
\<close>

type_synonym bytes = string

datatype num_error = ErrSyntax | ErrRange

datatype go_error =
    io_EOF
  | bufio_ErrTooLong
  | strconv_NumError string string num_error
  | External string
  | Wrapped go_error string

datatype 'a exec = Returns 'a | Panics string

text \<open>
  \<open>errors.Wrap\<close> of \<open>github.com/pkg/errors\<close>: a \<open>nil\<close> cause gives \<open>nil\<close>, any other
  cause is annotated with the message.
\<close>

definition errors_Wrap :: "go_error option \<Rightarrow> string \<Rightarrow> go_error option" where
  "errors_Wrap err message = (case err of None \<Rightarrow> None | Some e \<Rightarrow> Some (Wrapped e message))"

subsection \<open>Readers\<close>

text \<open>
  An \<open>io.Reader\<close> is read once, front to back: it yields its bytes and then reports an
  error on a read of its own, \<open>io.EOF\<close> at a regular end. \<open>io.LimitReader r n\<close> stops with
  \<open>io.EOF\<close> after \<open>n\<close> bytes and passes the reader through when it is shorter.
\<close>

type_synonym reader = "bytes \<times> go_error"

definition io_LimitReader :: "reader \<Rightarrow> int \<Rightarrow> reader" where
  "io_LimitReader r n =
     (if n \<le> int (length (fst r)) then (take (nat n) (fst r), io_EOF) else r)"

text \<open>
  \<open>bufio.Reader.ReadString delim\<close>: the data up to and including the first delimiter and
  no error, or all the data and the reader's error when no delimiter comes.
\<close>

definition ReadString :: "reader \<Rightarrow> char \<Rightarrow> string \<times> go_error option" where
  "ReadString r delim =
     (if delim \<in> set (fst r)
      then (takeWhile (\<lambda>c. c \<noteq> delim) (fst r) @ [delim], None)
      else (fst r, Some (snd r)))"

subsection \<open>Package strings\<close>

definition HasPrefix :: "string \<Rightarrow> string \<Rightarrow> bool" where
  "HasPrefix s prefix = (take (length prefix) s = prefix)"

text \<open>\<open>strings.Index\<close>: the position of the first occurrence, \<open>None\<close> for \<open>-1\<close>.\<close>

fun Index :: "string \<Rightarrow> string \<Rightarrow> nat option" where
  "Index [] substr = (if substr = [] then Some 0 else None)"
| "Index (c # s) substr =
     (if HasPrefix (c # s) substr then Some 0 else map_option Suc (Index s substr))"

text \<open>
  \<open>strings.Count\<close> for a non-empty \<open>substr\<close>, the only kind this program passes: the
  number of non-overlapping occurrences, found left to right.
\<close>

function Count :: "string \<Rightarrow> string \<Rightarrow> nat" where
  "Count s substr =
     (if substr = [] then 0
      else case Index s substr of
             None \<Rightarrow> 0
           | Some i \<Rightarrow> Suc (Count (drop (i + length substr) s) substr))"
  by pat_completeness auto
termination
proof (relation "measure (\<lambda>(s, substr). length s)")
  show "wf (measure (\<lambda>(s, substr). length s))" by simp
next
  fix s substr :: string and i
  assume nonempty: "substr \<noteq> []" and found: "Index s substr = Some i"
  have "j + length substr \<le> length t" if "Index t substr = Some j" for t j
    using that
  proof (induction t arbitrary: j)
    case Nil
    then show ?case by (simp split: if_splits)
  next
    case (Cons c t)
    show ?case
    proof (cases "HasPrefix (c # t) substr")
      case True
      then have eq: "take (length substr) (c # t) = substr"
        by (simp add: HasPrefix_def)
      have "length (take (length substr) (c # t)) \<le> length (c # t)"
        by (simp only: length_take min.cobounded2)
      with eq have "length substr \<le> length (c # t)"
        by (simp only:)
      with True Cons.prems show ?thesis by simp
    next
      case False
      with Cons.prems obtain k where "Index t substr = Some k" "j = Suc k"
        by auto
      with Cons.IH show ?thesis by simp
    qed
  qed
  from this [OF found] nonempty have "length s - (i + length substr) < length s"
    by (cases substr) simp_all
  then show "((drop (i + length substr) s, substr), (s, substr))
             \<in> measure (\<lambda>(s, substr). length s)"
    by simp
qed

declare Count.simps [simp del]

text \<open>
  \<open>strings.SplitN s sep n\<close> through \<open>genSplit\<close>, for a non-empty \<open>sep\<close>: \<open>nil\<close> (the empty
  list) for \<open>n = 0\<close>; otherwise an array of \<open>n\<close> slots (\<open>Count s sep + 1\<close> for a negative
  \<open>n\<close>, at most \<open>len(s) + 1\<close>) is filled by cutting at the first occurrence of \<open>sep\<close>
  until one slot is left or no occurrence remains. The program never passes an empty
  separator; for one, Go cuts the string into its code points and these definitions do
  not.
\<close>

fun genSplit :: "nat \<Rightarrow> string \<Rightarrow> string \<Rightarrow> string list" where
  "genSplit 0 s sep = [s]"
| "genSplit (Suc k) s sep =
     (case Index s sep of
        None \<Rightarrow> [s]
      | Some m \<Rightarrow> take m s # genSplit k (drop (m + length sep) s) sep)"

definition SplitN :: "string \<Rightarrow> string \<Rightarrow> int \<Rightarrow> string list" where
  "SplitN s sep n =
     (if n = 0 then []
      else genSplit (min (if n < 0 then Count s sep + 1 else nat n) (length s + 1) - 1) s sep)"

text \<open>
  \<open>strings.TrimSpace\<close> removes the leading and the trailing code points for which
  \<open>unicode.IsSpace\<close> holds: six ASCII bytes, and the code points U+0085, U+00A0, U+1680,
  U+2000 to U+200A, U+2028, U+2029, U+202F, U+205F and U+3000 in their UTF-8 encodings.
  A byte that starts no valid encoding decodes to U+FFFD, which is no space.
\<close>

definition asciiSpace :: "char \<Rightarrow> bool" where
  "asciiSpace c = (c \<in> set [CHR 0x09, CHR 0x0A, CHR 0x0B, CHR 0x0C, CHR 0x0D, CHR 0x20])"

definition space_runes :: "string list" where
  "space_runes =
     [[CHR 0xC2, CHR 0x85], [CHR 0xC2, CHR 0xA0], [CHR 0xE1, CHR 0x9A, CHR 0x80],
      [CHR 0xE2, CHR 0x80, CHR 0x80], [CHR 0xE2, CHR 0x80, CHR 0x81],
      [CHR 0xE2, CHR 0x80, CHR 0x82], [CHR 0xE2, CHR 0x80, CHR 0x83],
      [CHR 0xE2, CHR 0x80, CHR 0x84], [CHR 0xE2, CHR 0x80, CHR 0x85],
      [CHR 0xE2, CHR 0x80, CHR 0x86], [CHR 0xE2, CHR 0x80, CHR 0x87],
      [CHR 0xE2, CHR 0x80, CHR 0x88], [CHR 0xE2, CHR 0x80, CHR 0x89],
      [CHR 0xE2, CHR 0x80, CHR 0x8A], [CHR 0xE2, CHR 0x80, CHR 0xA8],
      [CHR 0xE2, CHR 0x80, CHR 0xA9], [CHR 0xE2, CHR 0x80, CHR 0xAF],
      [CHR 0xE2, CHR 0x81, CHR 0x9F], [CHR 0xE3, CHR 0x80, CHR 0x80]]"

text \<open>
  The width in bytes of the space code point that \<open>s\<close> starts with, 0 when it starts
  with none. With the encodings reversed it reads a reversed string from its end.
\<close>

definition space_width :: "string list \<Rightarrow> string \<Rightarrow> nat" where
  "space_width runes s =
     (case s of
        [] \<Rightarrow> 0
      | c # cs \<Rightarrow>
          if asciiSpace c then 1
          else if take 2 s \<in> set runes then 2
          else if take 3 s \<in> set runes then 3
          else 0)"

function trim_spaces :: "string list \<Rightarrow> string \<Rightarrow> string" where
  "trim_spaces runes s =
     (if space_width runes s = 0 then s
      else trim_spaces runes (drop (space_width runes s) s))"
  by pat_completeness auto
termination
proof (relation "measure (\<lambda>(runes, s). length s)")
  show "wf (measure (\<lambda>(runes, s). length s))" by simp
next
  fix runes :: "string list" and s :: string
  assume "space_width runes s \<noteq> 0"
  then have "length (drop (space_width runes s) s) < length s"
    by (cases s) (simp_all add: space_width_def split: if_splits)
  then show "((runes, drop (space_width runes s) s), (runes, s))
             \<in> measure (\<lambda>(runes, s). length s)"
    by simp
qed

declare trim_spaces.simps [simp del]

definition TrimLeft :: "string \<Rightarrow> string" where
  "TrimLeft s = trim_spaces space_runes s"

definition TrimRight :: "string \<Rightarrow> string" where
  "TrimRight s = rev (trim_spaces (map rev space_runes) (rev s))"

definition TrimSpace :: "string \<Rightarrow> string" where
  "TrimSpace s = TrimRight (TrimLeft s)"

text \<open>
  \<open>strings.ContainsAny\<close> on a string of at most one byte: whether that byte is one of
  \<open>chars\<close> (all ASCII here; a byte from 0x80 on decodes to U+FFFD and is none of them).
\<close>

definition ContainsAny :: "string \<Rightarrow> string \<Rightarrow> bool" where
  "ContainsAny s chars = (set s \<inter> set chars \<noteq> {})"

subsection \<open>Package strconv\<close>

text \<open>
  \<open>strconv.ParseUint s 10 64\<close>: digits only, read left to right; the range error comes
  at the digit that overflows 64 bits, before any later byte is looked at.
\<close>

definition isDigit :: "char \<Rightarrow> bool" where
  "isDigit c = ((of_char (CHR ''0'') :: int) \<le> of_char c \<and> (of_char c :: int) \<le> of_char (CHR ''9''))"

definition maxUint64 :: int where
  "maxUint64 = 18446744073709551615"

fun ParseUint_digits :: "int \<Rightarrow> string \<Rightarrow> num_error + int" where
  "ParseUint_digits n [] = Inr n"
| "ParseUint_digits n (c # cs) =
     (if \<not> isDigit c then Inl ErrSyntax
      else if n \<ge> maxUint64 div 10 + 1 then Inl ErrRange
      else if n * 10 + (of_char c - of_char (CHR ''0'')) > maxUint64 then Inl ErrRange
      else ParseUint_digits (n * 10 + (of_char c - of_char (CHR ''0''))) cs)"

definition ParseUint :: "string \<Rightarrow> num_error + int" where
  "ParseUint s = (if s = [] then Inl ErrSyntax else ParseUint_digits 0 s)"

text \<open>
  \<open>strconv.ParseInt s 10 64\<close>: an optional sign, then \<open>ParseUint\<close>; the value must fit
  \<open>int64\<close>, whose largest value is 9223372036854775807. The error names the function
  and the whole input.
\<close>

definition ParseInt :: "string \<Rightarrow> go_error + int" where
  "ParseInt s =
     (if s = [] then Inl (strconv_NumError ''ParseInt'' s ErrSyntax)
      else
        let neg = (hd s = CHR ''-'');
            s1 = (if hd s = CHR ''+'' \<or> hd s = CHR ''-'' then tl s else s)
        in case ParseUint s1 of
             Inl e \<Rightarrow> Inl (strconv_NumError ''ParseInt'' s e)
           | Inr un \<Rightarrow>
               if \<not> neg \<and> un \<ge> 9223372036854775808
               then Inl (strconv_NumError ''ParseInt'' s ErrRange)
               else if neg \<and> un > 9223372036854775808
               then Inl (strconv_NumError ''ParseInt'' s ErrRange)
               else Inr (if neg then - un else un))"

subsection \<open>bufio.Scanner with the default line splitter\<close>

text \<open>
  \<open>ScanLines\<close> cuts the input at each newline; a final line without a newline is a line,
  an empty rest after the last newline is not. One trailing carriage return is dropped
  from each line. A line of \<open>MaxScanTokenSize\<close> bytes or more does not fit the buffer:
  scanning stops there with \<open>ErrTooLong\<close>. After the last line \<open>Err\<close> is the reader's
  error, \<open>nil\<close> for \<open>io.EOF\<close>.
\<close>

fun raw_lines :: "bytes \<Rightarrow> bytes list" where
  "raw_lines [] = []"
| "raw_lines (c # cs) =
     (if c = CHR 0x0A then [] # raw_lines cs
      else case raw_lines cs of [] \<Rightarrow> [[c]] | l # ls \<Rightarrow> (c # l) # ls)"

definition dropCR :: "bytes \<Rightarrow> bytes" where
  "dropCR data = (if data \<noteq> [] \<and> last data = CHR 0x0D then butlast data else data)"

definition MaxScanTokenSize :: int where
  "MaxScanTokenSize = 64 * 1024"

fun scan_tokens :: "bytes list \<Rightarrow> string list \<times> go_error option" where
  "scan_tokens [] = ([], None)"
| "scan_tokens (l # ls) =
     (if int (length l) \<ge> MaxScanTokenSize then ([], Some bufio_ErrTooLong)
      else case scan_tokens ls of (tokens, err) \<Rightarrow> (dropCR l # tokens, err))"

definition Scanner :: "reader \<Rightarrow> string list \<times> go_error option" where
  "Scanner r =
     (case scan_tokens (raw_lines (fst r)) of
        (tokens, Some err) \<Rightarrow> (tokens, Some err)
      | (tokens, None) \<Rightarrow> (tokens, if snd r = io_EOF then None else Some (snd r)))"

section \<open>The package record\<close>

text \<open>
  A \<open>nil\<close> slice is the empty list; \<open>SplitN\<close> with a negative count never returns an
  empty list, so the two cannot be confused. \<open>time.Time\<close> is a number, zero for its zero
  value.
\<close>

type_synonym time = int

record DEBPackage =
  Architecture :: string
  BuiltUsing :: "string list"
  DebVersion :: string
  Depends :: "string list"
  Description :: string
  Filename :: string
  Homepage :: string
  InstalledSize :: int
  Maintainer :: string
  Modified :: time
  Name :: string
  Priority :: string
  Recommends :: "string list"
  Section :: string
  Version :: string

text \<open>The composite literal of \<open>Parse\<close>: every field not named is at its zero value.\<close>

definition new_DEBPackage :: "string \<Rightarrow> time \<Rightarrow> DEBPackage" where
  "new_DEBPackage filename modtime =
     \<lparr>Architecture = [], BuiltUsing = [], DebVersion = [], Depends = [], Description = [],
      Filename = filename, Homepage = [], InstalledSize = 0, Maintainer = [],
      Modified = modtime, Name = [], Priority = [], Recommends = [], Section = [],
      Version = []\<rparr>"

section \<open>The collaborators\<close>

text \<open>
  The archive readers (\<open>ar\<close> and \<open>tar\<close>) present a byte stream as the headers their
  \<open>Next\<close> returns in order, each with the reader of that member's content, and the error
  \<open>Next\<close> returns after the last member, \<open>io.EOF\<close> at a regular end. The decompressors
  turn a reader into a reader or fail. The file system opens a path or fails, and a file
  has a modification time unless \<open>Stat\<close> fails. All of them are taken as given.
\<close>

record Header =
  hdr_Name :: string
  hdr_Size :: int

type_synonym member = "Header \<times> reader"

type_synonym archive = "member list \<times> go_error"

record os_File =
  file_Stat :: "go_error + time"
  file_ar :: archive

record collaborators =
  os_Open :: "string \<Rightarrow> go_error + os_File"
  gzip_NewReader :: "reader \<Rightarrow> go_error + reader"
  xz_NewReader :: "reader \<Rightarrow> go_error + reader"
  zstd_NewReader :: "reader \<Rightarrow> go_error + reader"
  tar_NewReader :: "reader \<Rightarrow> archive"

section \<open>The control-text parser\<close>

definition parse_control_field :: "DEBPackage \<Rightarrow> string \<Rightarrow> string \<times> string" where
  "parse_control_field deb line =
     (let fields = SplitN line '': '' 2
      in if length fields = 2 then (TrimSpace (fields ! 0), TrimSpace (fields ! 1))
         else ([], []))"

text \<open>
  The switch of \<open>parse_control\<close> on the field name: the record after it, the flag
  \<open>in_description\<close> after it, and the error when the case returns from \<open>parse_control\<close>.
  The switch runs only while the flag is false, and only the \<open>Description\<close> case sets
  it.
\<close>

definition switch_name ::
  "DEBPackage \<Rightarrow> string \<Rightarrow> string \<Rightarrow> DEBPackage \<times> bool \<times> go_error option" where
  "switch_name deb name val =
     (if name = ''Architecture'' then (deb\<lparr>Architecture := val\<rparr>, False, None)
      else if name = ''Built-Using'' then (deb\<lparr>BuiltUsing := SplitN val '', '' (- 1)\<rparr>, False, None)
      else if name = ''Depends'' then (deb\<lparr>Depends := SplitN val '', '' (- 1)\<rparr>, False, None)
      else if name = ''Description'' then (deb\<lparr>Description := val\<rparr>, True, None)
      else if name = ''Homepage'' then (deb\<lparr>Homepage := val\<rparr>, False, None)
      else if name = ''Installed-Size'' then
        (case ParseInt val of
           Inl err \<Rightarrow> (deb, False, Some (Wrapped err ''Error parsing Installed-Size''))
         | Inr sz \<Rightarrow> (deb\<lparr>InstalledSize := sz\<rparr>, False, None))
      else if name = ''Maintainer'' then (deb\<lparr>Maintainer := val\<rparr>, False, None)
      else if name = ''Package'' then (deb\<lparr>Name := val\<rparr>, False, None)
      else if name = ''Priority'' then (deb\<lparr>Priority := val\<rparr>, False, None)
      else if name = ''Recommends'' then (deb\<lparr>Recommends := SplitN val '', '' (- 1)\<rparr>, False, None)
      else if name = ''Section'' then (deb\<lparr>Section := val\<rparr>, False, None)
      else if name = ''Version'' then (deb\<lparr>Version := val\<rparr>, False, None)
      else (deb, False, None))"

text \<open>
  The body of the loop of \<open>parse_control\<close> for one line: the record and the flag after
  the line, with the error when the line makes \<open>parse_control\<close> return. In continuation
  mode the first byte is sliced off the line, \<open>line[0:1]\<close>, which is a run-time panic
  when the line is empty; the line then either ends the mode or is appended to the
  description. A line met or left outside the mode goes to the switch.
\<close>

definition continuation_chars :: string where
  "continuation_chars = [CHR 0x20, CHR 0x09, CHR 0x0D, CHR 0x0A]"

definition control_line ::
  "DEBPackage \<Rightarrow> bool \<Rightarrow> string \<Rightarrow> (DEBPackage \<times> bool \<times> go_error option) exec" where
  "control_line deb in_description line =
     (if in_description \<and> length line < 1 then
        Panics ''runtime error: slice bounds out of range [:1] with length 0''
      else
        let (deb1, in_description1) =
              (if in_description then
                 (if \<not> ContainsAny (take 1 line) continuation_chars then (deb, False)
                  else (deb\<lparr>Description := Description deb @ line\<rparr>, in_description))
               else (deb, in_description))
        in if \<not> in_description1 then
             (case parse_control_field deb1 line of
                (name, val) \<Rightarrow> Returns (switch_name deb1 name val))
           else Returns (deb1, in_description1, None))"

fun parse_control_lines ::
  "DEBPackage \<Rightarrow> bool \<Rightarrow> string list \<Rightarrow> go_error option \<Rightarrow> (DEBPackage \<times> go_error option) exec"
  where
  "parse_control_lines deb in_description [] scan_err =
     Returns (deb, errors_Wrap scan_err ''Error parsing control file'')"
| "parse_control_lines deb in_description (line # rest) scan_err =
     (case control_line deb in_description line of
        Panics p \<Rightarrow> Panics p
      | Returns (deb', in_description', Some err) \<Rightarrow> Returns (deb', Some err)
      | Returns (deb', in_description', None) \<Rightarrow>
          parse_control_lines deb' in_description' rest scan_err)"

definition parse_control :: "DEBPackage \<Rightarrow> reader \<Rightarrow> (DEBPackage \<times> go_error option) exec" where
  "parse_control deb reader =
     (case Scanner reader of (lines, scan_err) \<Rightarrow> parse_control_lines deb False lines scan_err)"

section \<open>The inner archive\<close>

text \<open>
  The loop of \<open>parse_control_tar\<close> over the members of the tape archive. The value that
  \<open>parse_control\<close> returns is not looked at, and the loop goes on after a \<open>./control\<close>
  member.
\<close>

fun parse_control_tar_members ::
  "DEBPackage \<Rightarrow> member list \<Rightarrow> go_error \<Rightarrow> (DEBPackage \<times> go_error option) exec" where
  "parse_control_tar_members deb [] err =
     Returns (deb, if err = io_EOF then None else Some (Wrapped err ''Error reading control.tar''))"
| "parse_control_tar_members deb ((header, body) # rest) err =
     (if hdr_Name header = ''./control'' then
        (case parse_control deb (io_LimitReader body (hdr_Size header)) of
           Panics p \<Rightarrow> Panics p
         | Returns (deb', _) \<Rightarrow> parse_control_tar_members deb' rest err)
      else parse_control_tar_members deb rest err)"

definition parse_control_tar ::
  "collaborators \<Rightarrow> DEBPackage \<Rightarrow> reader \<Rightarrow> (DEBPackage \<times> go_error option) exec" where
  "parse_control_tar c deb reader =
     (case tar_NewReader c reader of (members, err) \<Rightarrow> parse_control_tar_members deb members err)"

definition parse_control_tar_gz ::
  "collaborators \<Rightarrow> DEBPackage \<Rightarrow> reader \<Rightarrow> (DEBPackage \<times> go_error option) exec" where
  "parse_control_tar_gz c deb reader =
     (case gzip_NewReader c reader of
        Inl err \<Rightarrow> Returns (deb, Some (Wrapped err ''Error decompressing control.tar.gz''))
      | Inr gz_reader \<Rightarrow> parse_control_tar c deb gz_reader)"

definition parse_control_tar_xz ::
  "collaborators \<Rightarrow> DEBPackage \<Rightarrow> reader \<Rightarrow> (DEBPackage \<times> go_error option) exec" where
  "parse_control_tar_xz c deb reader =
     (case xz_NewReader c reader of
        Inl err \<Rightarrow> Returns (deb, Some (Wrapped err ''Error decompressing control.tar.xz''))
      | Inr xz_reader \<Rightarrow> parse_control_tar c deb xz_reader)"

definition parse_control_tar_zst ::
  "collaborators \<Rightarrow> DEBPackage \<Rightarrow> reader \<Rightarrow> (DEBPackage \<times> go_error option) exec" where
  "parse_control_tar_zst c deb reader =
     (case zstd_NewReader c reader of
        Inl err \<Rightarrow> Returns (deb, Some (Wrapped err ''error decompressing control.tar.zst''))
      | Inr zst_reader \<Rightarrow> parse_control_tar c deb zst_reader)"

section \<open>The outer archive\<close>

definition parse_debian_binary :: "DEBPackage \<Rightarrow> reader \<Rightarrow> DEBPackage \<times> go_error option" where
  "parse_debian_binary deb reader =
     (case ReadString reader (CHR 0x00) of
        (version, err) \<Rightarrow>
          if err \<noteq> Some io_EOF then (deb, errors_Wrap err ''Cannot read DEB version string'')
          else (deb\<lparr>DebVersion := TrimSpace version\<rparr>, None))"

text \<open>
  What \<open>Parse\<close> does with the result of a callee, \<open>if err != nil { return nil, err }\<close>:
  \<open>Inl\<close> is what \<open>Parse\<close> stops with (a panic of the callee, or its error), \<open>Inr\<close> the
  record the loop goes on with.
\<close>

definition after_member ::
  "string list \<Rightarrow> (DEBPackage \<times> go_error option) exec
     \<Rightarrow> (string list \<times> (go_error + DEBPackage) exec) + DEBPackage" where
  "after_member out r =
     (case r of
        Panics p \<Rightarrow> Inl (out, Panics p)
      | Returns (deb, Some err) \<Rightarrow> Inl (out, Returns (Inl err))
      | Returns (deb, None) \<Rightarrow> Inr deb)"

text \<open>
  The loop of \<open>Parse\<close> over the members of the outer archive. The result is the lines
  written to standard output and what \<open>Parse\<close> returns, an error (\<open>Inl\<close>, with a \<open>nil\<close>
  record) or the record (\<open>Inr\<close>, with a \<open>nil\<close> error), unless a callee panics.
\<close>

fun Parse_members ::
  "collaborators \<Rightarrow> string \<Rightarrow> DEBPackage \<Rightarrow> string list \<Rightarrow> member list \<Rightarrow> go_error
     \<Rightarrow> string list \<times> (go_error + DEBPackage) exec" where
  "Parse_members c filename deb out [] err =
     (out, Returns (if err = io_EOF then Inr deb
                    else Inl (Wrapped err (''Error reading '' @ filename))))"
| "Parse_members c filename deb out ((header, body) # rest) err =
     (if hdr_Name header = ''debian-binary'' then
        (case after_member out
                (Returns (parse_debian_binary deb (io_LimitReader body (hdr_Size header)))) of
           Inl stop \<Rightarrow> stop
         | Inr deb' \<Rightarrow> Parse_members c filename deb' out rest err)
      else if hdr_Name header = ''control.tar.gz'' then
        (case after_member out
                (parse_control_tar_gz c deb (io_LimitReader body (hdr_Size header))) of
           Inl stop \<Rightarrow> stop
         | Inr deb' \<Rightarrow> Parse_members c filename deb' out rest err)
      else if hdr_Name header = ''control.tar.xz'' then
        (case after_member out
                (parse_control_tar_xz c deb (io_LimitReader body (hdr_Size header))) of
           Inl stop \<Rightarrow> stop
         | Inr deb' \<Rightarrow> Parse_members c filename deb' out rest err)
      else if hdr_Name header = ''control.tar.zst'' then
        (case after_member out
                (parse_control_tar_zst c deb (io_LimitReader body (hdr_Size header))) of
           Inl stop \<Rightarrow> stop
         | Inr deb' \<Rightarrow> Parse_members c filename deb' out rest err)
      else if hdr_Name header = ''data.tar.gz'' then (out, Returns (Inr deb))
      else if hdr_Name header = ''data.tar.xz'' then (out, Returns (Inr deb))
      else if hdr_Name header = ''data.tar.zst'' then (out, Returns (Inr deb))
      else Parse_members c filename deb (out @ [hdr_Name header]) rest err)"

definition Parse :: "collaborators \<Rightarrow> string \<Rightarrow> string list \<times> (go_error + DEBPackage) exec" where
  "Parse c filename =
     (case os_Open c filename of
        Inl err \<Rightarrow> ([], Returns (Inl (Wrapped err (''Cannot open '' @ filename))))
      | Inr file \<Rightarrow>
          (case file_Stat file of
             Inl err \<Rightarrow> ([], Returns (Inl (Wrapped err (''Cannot stat '' @ filename))))
           | Inr modtime \<Rightarrow>
               Parse_members c filename (new_DEBPackage filename modtime) []
                 (fst (file_ar file)) (snd (file_ar file))))"

section \<open>Notions used to state the properties\<close>

text \<open>\<open>strings.Join\<close>, the inverse of splitting.\<close>

fun Join :: "string list \<Rightarrow> string \<Rightarrow> string" where
  "Join [] sep = []"
| "Join [x] sep = x"
| "Join (x # y # xs) sep = x @ sep @ Join (y # xs) sep"

text \<open>
  The field name of a line is the name \<open>parse_control_field\<close> finds in it (the record
  argument of that function is not used). \<open>control_field\<close> reads the record field that
  the switch of \<open>parse_control\<close> assigns for a field name.
\<close>

definition field_name :: "string \<Rightarrow> string" where
  "field_name line = fst (parse_control_field (new_DEBPackage [] 0) line)"

datatype field_value = Text string | List "string list" | Number int

definition control_field :: "string \<Rightarrow> DEBPackage \<Rightarrow> field_value option" where
  "control_field name deb =
     (if name = ''Architecture'' then Some (Text (Architecture deb))
      else if name = ''Built-Using'' then Some (List (BuiltUsing deb))
      else if name = ''Depends'' then Some (List (Depends deb))
      else if name = ''Description'' then Some (Text (Description deb))
      else if name = ''Homepage'' then Some (Text (Homepage deb))
      else if name = ''Installed-Size'' then Some (Number (InstalledSize deb))
      else if name = ''Maintainer'' then Some (Text (Maintainer deb))
      else if name = ''Package'' then Some (Text (Name deb))
      else if name = ''Priority'' then Some (Text (Priority deb))
      else if name = ''Recommends'' then Some (List (Recommends deb))
      else if name = ''Section'' then Some (Text (Section deb))
      else if name = ''Version'' then Some (Text (Version deb))
      else None)"

text \<open>
  The member names the walk of \<open>Parse\<close> tells apart, and the \<open>debian-binary\<close> members
  that \<open>parse_debian_binary\<close> reads without an error (the error it returns does not
  depend on the record).
\<close>

definition control_member_names :: "string list" where
  "control_member_names = [''control.tar.gz'', ''control.tar.xz'', ''control.tar.zst'']"

definition data_member_names :: "string list" where
  "data_member_names = [''data.tar.gz'', ''data.tar.xz'', ''data.tar.zst'']"

definition version_readable :: "member \<Rightarrow> bool" where
  "version_readable m =
     (snd (parse_debian_binary (new_DEBPackage [] 0)
             (io_LimitReader (snd m) (hdr_Size (fst m)))) = None)"

definition no_control_member :: "member list \<Rightarrow> bool" where
  "no_control_member members =
     (list_all (\<lambda>m. hdr_Name (fst m) \<notin> set control_member_names) members
      \<and> list_all version_readable [m \<leftarrow> members. hdr_Name (fst m) = ''debian-binary''])"

text \<open>
  The content of a member bounded by its declared length: the first \<open>hdr_Size\<close> bytes
  of what the member's reader yields, ending regularly when the reader has that many
  bytes and as the reader ends when it has fewer.
\<close>

definition declared_content :: "member \<Rightarrow> reader" where
  "declared_content m =
     (take (nat (hdr_Size (fst m))) (fst (snd m)),
      if hdr_Size (fst m) \<le> int (length (fst (snd m))) then io_EOF else snd (snd m))"

text \<open>
  A control text on which the control-text parser panics. Whether it does depends on the
  text alone, not on the record (\<open>parse_control_panics\<close> below).
\<close>

definition control_panics :: "reader \<Rightarrow> bool" where
  "control_panics r =
     (case parse_control (new_DEBPackage [] 0) r of Panics p \<Rightarrow> True | Returns x \<Rightarrow> False)"

text \<open>
  An ASCII string with its surrounding white space removed, written without the
  functions of the program: the white-space bytes are the tab, the line feed, the
  vertical tab, the form feed, the carriage return and the space.
\<close>

definition isASCII :: "char \<Rightarrow> bool" where
  "isASCII c = ((of_char c :: int) < 128)"

definition white_space :: "char \<Rightarrow> bool" where
  "white_space c = (c \<in> set [CHR 0x09, CHR 0x0A, CHR 0x0B, CHR 0x0C, CHR 0x0D, CHR 0x20])"

definition trimmed :: "string \<Rightarrow> string" where
  "trimmed s = rev (dropWhile white_space (rev (dropWhile white_space s)))"

text \<open>
  Sample inputs: a member whose declared size is the length of its content, and
  collaborators for one file \<open>pkg.deb\<close>, with decompressors that pass their input
  through and a tape-archive reader that presents the given members.
\<close>

definition LF :: char where
  "LF = CHR 0x0A"

definition sample_member :: "string \<Rightarrow> bytes \<Rightarrow> member" where
  "sample_member name content =
     (\<lparr>hdr_Name = name, hdr_Size = int (length content)\<rparr>, (content, io_EOF))"

definition sample_collaborators :: "archive \<Rightarrow> archive \<Rightarrow> collaborators" where
  "sample_collaborators outer inner =
     \<lparr>os_Open = (\<lambda>path. if path = ''pkg.deb''
                        then Inr \<lparr>file_Stat = Inr 1700000000, file_ar = outer\<rparr>
                        else Inl (External ''no such file or directory'')),
      gzip_NewReader = Inr, xz_NewReader = Inr, zstd_NewReader = Inr,
      tar_NewReader = (\<lambda>reader. inner)\<rparr>"

section \<open>Splitting and field lines\<close>

lemma Index_bound:
  "Index s substr = Some i \<Longrightarrow> i + length substr \<le> length s"
proof (induction s arbitrary: i)
  case Nil
  then show ?case by (simp split: if_splits)
next
  case (Cons c s)
  show ?case
  proof (cases "HasPrefix (c # s) substr")
    case True
    then have eq: "take (length substr) (c # s) = substr"
      by (simp add: HasPrefix_def)
    have "length (take (length substr) (c # s)) \<le> length (c # s)"
      by (simp only: length_take min.cobounded2)
    with eq have "length substr \<le> length (c # s)"
      by (simp only:)
    with True Cons.prems show ?thesis by simp
  next
    case False
    with Cons.prems obtain j where "Index s substr = Some j" "i = Suc j"
      by auto
    with Cons.IH show ?thesis by simp
  qed
qed

lemma Index_occurrence:
  "Index s sep = Some m \<Longrightarrow> take m s @ sep @ drop (m + length sep) s = s"
proof (induction s arbitrary: m)
  case Nil
  then show ?case by (simp split: if_splits)
next
  case (Cons c s)
  show ?case
  proof (cases "HasPrefix (c # s) sep")
    case True
    with Cons.prems have "m = 0" by simp
    moreover from True have "take (length sep) (c # s) = sep" by (simp add: HasPrefix_def)
    then have "sep @ drop (length sep) (c # s) = c # s" by (metis append_take_drop_id)
    ultimately show ?thesis by simp
  next
    case False
    with Cons.prems obtain j where j: "Index s sep = Some j" "m = Suc j" by auto
    with Cons.IH [of j] show ?thesis by simp
  qed
qed

lemma HasPrefix_take:
  assumes "HasPrefix (take j s) sep" shows "HasPrefix s sep"
proof -
  from assms have eq: "take (length sep) (take j s) = sep" by (simp add: HasPrefix_def)
  have "length (take (length sep) (take j s)) \<le> j" by simp
  with eq have "length sep \<le> j" by (simp only:)
  then have "min (length sep) j = length sep" by simp
  with eq show ?thesis by (simp add: HasPrefix_def)
qed

lemma Index_first:
  "Index s sep = Some m \<Longrightarrow> sep \<noteq> [] \<Longrightarrow> Index (take m s) sep = None"
proof (induction s arbitrary: m)
  case Nil
  then show ?case by simp
next
  case (Cons c s)
  show ?case
  proof (cases "HasPrefix (c # s) sep")
    case True
    with Cons.prems show ?thesis by simp
  next
    case False
    with Cons.prems obtain j where j: "Index s sep = Some j" "m = Suc j" by auto
    from False have "\<not> HasPrefix (take (Suc j) (c # s)) sep"
      using HasPrefix_take by blast
    with j Cons.IH [of j] Cons.prems(2) show ?thesis by simp
  qed
qed

lemma Count_le: "Count s sep \<le> length s"
proof (induction s sep rule: Count.induct)
  case (1 s substr)
  show ?case
  proof (cases "substr = []")
    case True
    then show ?thesis by (simp add: Count.simps)
  next
    case False
    show ?thesis
    proof (cases "Index s substr")
      case None
      with False show ?thesis by (simp add: Count.simps)
    next
      case (Some i)
      with False 1 have "Count (drop (i + length substr) s) substr \<le> length s - (i + length substr)"
        by simp
      moreover from Some have "i + length substr \<le> length s" by (rule Index_bound)
      moreover from False have "0 < length substr" by simp
      ultimately have "Suc (Count (drop (i + length substr) s) substr) \<le> length s" by arith
      with False Some show ?thesis by (simp add: Count.simps)
    qed
  qed
qed

lemma SplitN_all: "SplitN s sep (- 1) = genSplit (Count s sep) s sep"
  using Count_le [of s sep] by (simp add: SplitN_def)

lemma genSplit_not_Nil: "genSplit k s sep \<noteq> []"
  by (cases k) (simp_all split: option.splits)

lemma genSplit_Count_Join:
  "sep \<noteq> [] \<Longrightarrow> Join (genSplit (Count s sep) s sep) sep = s"
proof (induction s sep rule: Count.induct)
  case (1 s substr)
  show ?case
  proof (cases "Index s substr")
    case None
    with 1 show ?thesis by (simp add: Count.simps)
  next
    case (Some i)
    let ?rest = "drop (i + length substr) s"
    from 1 Some have IH: "Join (genSplit (Count ?rest substr) ?rest substr) substr = ?rest"
      by simp
    obtain y ys where ys: "genSplit (Count ?rest substr) ?rest substr = y # ys"
      using genSplit_not_Nil by (cases "genSplit (Count ?rest substr) ?rest substr") auto
    from Some 1 have "genSplit (Count s substr) s substr = take i s # y # ys"
      by (simp add: Count.simps [of s] ys)
    then have "Join (genSplit (Count s substr) s substr) substr = take i s @ substr @ ?rest"
      using IH ys by simp
    with Index_occurrence [OF Some] show ?thesis by simp
  qed
qed

lemma genSplit_Count_pieces:
  "sep \<noteq> [] \<Longrightarrow> x \<in> set (genSplit (Count s sep) s sep) \<Longrightarrow> Index x sep = None"
proof (induction s sep rule: Count.induct)
  case (1 s substr)
  show ?case
  proof (cases "Index s substr")
    case None
    with 1 show ?thesis by (simp add: Count.simps)
  next
    case (Some i)
    let ?rest = "drop (i + length substr) s"
    from Some 1 have "genSplit (Count s substr) s substr
        = take i s # genSplit (Count ?rest substr) ?rest substr"
      by (simp add: Count.simps [of s])
    with "1.prems" have "x = take i s \<or> x \<in> set (genSplit (Count ?rest substr) ?rest substr)"
      by simp
    then show ?thesis
    proof
      assume "x = take i s"
      with Index_first [OF Some] "1.prems" show ?thesis by simp
    next
      assume "x \<in> set (genSplit (Count ?rest substr) ?rest substr)"
      with 1 Some show ?thesis by simp
    qed
  qed
qed

lemma HasPrefix_Cons_colon:
  "c \<noteq> CHR '':'' \<Longrightarrow> \<not> HasPrefix (c # s) '': ''"
  by (simp add: HasPrefix_def)

lemma HasPrefix_colon_space: "HasPrefix (CHR '':'' # CHR '' '' # v) '': ''"
  by (simp add: HasPrefix_def)

lemma Index_field_separator:
  "CHR '':'' \<notin> set name \<Longrightarrow> Index (name @ CHR '':'' # CHR '' '' # v) '': '' = Some (length name)"
proof (induction name)
  case Nil
  show ?case by (simp add: HasPrefix_colon_space)
next
  case (Cons c name)
  then have "c \<noteq> CHR '':''" and "CHR '':'' \<notin> set name" by auto
  with Cons.IH show ?case by (simp add: HasPrefix_Cons_colon)
qed

lemma SplitN_field:
  "CHR '':'' \<notin> set name \<Longrightarrow> SplitN (name @ CHR '':'' # CHR '' '' # v) '': '' 2 = [name, v]"
  by (simp add: SplitN_def Index_field_separator)

lemma parse_control_field_line:
  "CHR '':'' \<notin> set name \<Longrightarrow>
   parse_control_field deb (name @ CHR '':'' # CHR '' '' # v) = (TrimSpace name, TrimSpace v)"
  by (simp add: parse_control_field_def SplitN_field)

lemma control_line_eq:
  "control_line deb in_description line =
     (if in_description \<and> line = [] then
        Panics ''runtime error: slice bounds out of range [:1] with length 0''
      else if in_description \<and> ContainsAny (take 1 line) continuation_chars then
        Returns (deb\<lparr>Description := Description deb @ line\<rparr>, True, None)
      else
        case parse_control_field deb line of
          (name, val) \<Rightarrow> Returns (switch_name deb name val))"
  by (cases line) (simp_all add: control_line_def)

lemma control_line_field:
  assumes "CHR '':'' \<notin> set name" and "name \<noteq> []" and "hd name \<notin> set continuation_chars"
  shows "control_line deb d (name @ CHR '':'' # CHR '' '' # v)
         = Returns (switch_name deb (TrimSpace name) (TrimSpace v))"
proof -
  from assms(2) obtain c cs where name: "name = c # cs" by (cases name) auto
  with assms(3)
  have "\<not> ContainsAny (take 1 (name @ CHR '':'' # CHR '' '' # v)) continuation_chars"
    by (simp add: ContainsAny_def)
  moreover have "name @ CHR '':'' # CHR '' '' # v \<noteq> []" using name by simp
  ultimately show ?thesis
    using assms(1) by (simp add: control_line_eq parse_control_field_line)
qed

section \<open>Fields that a line leaves alone\<close>

lemma parse_control_field_deb:
  "parse_control_field deb line = parse_control_field deb' line"
  by (simp add: parse_control_field_def)

lemma fst_parse_control_field: "fst (parse_control_field deb line) = field_name line"
  unfolding field_name_def by (rule arg_cong [OF parse_control_field_deb])

lemma control_field_update:
  "field \<noteq> ''Architecture'' \<Longrightarrow> control_field field (deb\<lparr>Architecture := s\<rparr>) = control_field field deb"
  "field \<noteq> ''Built-Using'' \<Longrightarrow> control_field field (deb\<lparr>BuiltUsing := xs\<rparr>) = control_field field deb"
  "field \<noteq> ''Depends'' \<Longrightarrow> control_field field (deb\<lparr>Depends := xs\<rparr>) = control_field field deb"
  "field \<noteq> ''Description'' \<Longrightarrow> control_field field (deb\<lparr>Description := s\<rparr>) = control_field field deb"
  "field \<noteq> ''Homepage'' \<Longrightarrow> control_field field (deb\<lparr>Homepage := s\<rparr>) = control_field field deb"
  "field \<noteq> ''Installed-Size'' \<Longrightarrow> control_field field (deb\<lparr>InstalledSize := n\<rparr>) = control_field field deb"
  "field \<noteq> ''Maintainer'' \<Longrightarrow> control_field field (deb\<lparr>Maintainer := s\<rparr>) = control_field field deb"
  "field \<noteq> ''Package'' \<Longrightarrow> control_field field (deb\<lparr>Name := s\<rparr>) = control_field field deb"
  "field \<noteq> ''Priority'' \<Longrightarrow> control_field field (deb\<lparr>Priority := s\<rparr>) = control_field field deb"
  "field \<noteq> ''Recommends'' \<Longrightarrow> control_field field (deb\<lparr>Recommends := xs\<rparr>) = control_field field deb"
  "field \<noteq> ''Section'' \<Longrightarrow> control_field field (deb\<lparr>Section := s\<rparr>) = control_field field deb"
  "field \<noteq> ''Version'' \<Longrightarrow> control_field field (deb\<lparr>Version := s\<rparr>) = control_field field deb"
  "control_field field (deb\<lparr>DebVersion := s\<rparr>) = control_field field deb"
  by (simp_all add: control_field_def)

lemma switch_name_other:
  assumes "name \<notin> set [''Architecture'', ''Built-Using'', ''Depends'', ''Description'',
      ''Homepage'', ''Installed-Size'', ''Maintainer'', ''Package'', ''Priority'',
      ''Recommends'', ''Section'', ''Version'']"
  shows "switch_name deb name val = (deb, False, None)"
  using assms by (simp add: switch_name_def)

lemma switch_name_known:
  assumes "name \<in> set [''Architecture'', ''Built-Using'', ''Depends'', ''Description'',
      ''Homepage'', ''Installed-Size'', ''Maintainer'', ''Package'', ''Priority'',
      ''Recommends'', ''Section'', ''Version'']"
  shows "name = ''Architecture'' \<or> name = ''Built-Using'' \<or> name = ''Depends''
      \<or> name = ''Description'' \<or> name = ''Homepage'' \<or> name = ''Installed-Size''
      \<or> name = ''Maintainer'' \<or> name = ''Package'' \<or> name = ''Priority''
      \<or> name = ''Recommends'' \<or> name = ''Section'' \<or> name = ''Version''"
  using assms by (simp only: set_simps insert_iff empty_iff HOL.simp_thms)

lemma switch_name_keeps_field:
  assumes "switch_name deb name val = (deb', d', e)" and "name \<noteq> field"
  shows "control_field field deb' = control_field field deb"
    and "field = ''Description'' \<Longrightarrow> \<not> d'"
proof -
  let ?known = "[''Architecture'', ''Built-Using'', ''Depends'', ''Description'',
      ''Homepage'', ''Installed-Size'', ''Maintainer'', ''Package'', ''Priority'',
      ''Recommends'', ''Section'', ''Version'']"
  have "control_field field (fst (switch_name deb name val)) = control_field field deb
      \<and> (name \<noteq> ''Description'' \<longrightarrow> \<not> fst (snd (switch_name deb name val)))"
  proof (cases "name \<in> set ?known")
    case True
    from switch_name_known [OF True] assms(2) show ?thesis
      by (elim disjE) (simp_all add: switch_name_def control_field_update split: sum.splits)
  next
    case False
    then show ?thesis by (simp only: switch_name_other fst_conv snd_conv simp_thms)
  qed
  with assms show "control_field field deb' = control_field field deb"
    and "field = ''Description'' \<Longrightarrow> \<not> d'" by simp_all
qed

lemma control_line_keeps_field:
  assumes "control_line deb d l = Returns (deb', d', e)" and "field_name l \<noteq> field"
    and "field = ''Description'' \<Longrightarrow> \<not> d"
  shows "control_field field deb' = control_field field deb"
    and "field = ''Description'' \<Longrightarrow> \<not> d'"
proof -
  obtain name val where nv: "parse_control_field deb l = (name, val)"
    by (cases "parse_control_field deb l")
  with fst_parse_control_field [of deb l] have name: "name = field_name l" by simp
  show "control_field field deb' = control_field field deb"
  proof (cases "d \<and> ContainsAny (take 1 l) continuation_chars")
    case True
    with assms have "deb' = deb\<lparr>Description := Description deb @ l\<rparr>" and "field \<noteq> ''Description''"
      by (auto simp: control_line_eq split: if_splits)
    then show ?thesis by (simp add: control_field_def)
  next
    case False
    with assms(1) nv have "switch_name deb name val = (deb', d', e)"
      by (auto simp: control_line_eq split: if_splits)
    with name assms(2) show ?thesis by (simp add: switch_name_keeps_field(1))
  qed
  show "\<not> d'" if "field = ''Description''"
  proof -
    from that assms(3) have "\<not> d" by simp
    with assms(1) nv have "switch_name deb name val = (deb', d', e)"
      by (auto simp: control_line_eq split: if_splits)
    with name assms(2) that show ?thesis using switch_name_keeps_field(2) by blast
  qed
qed

lemma parse_control_lines_keeps_field:
  assumes "parse_control_lines deb d ls scan_err = Returns (deb', r)"
    and "field \<notin> field_name ` set ls" and "field = ''Description'' \<Longrightarrow> \<not> d"
  shows "control_field field deb' = control_field field deb"
  using assms
proof (induction ls arbitrary: deb d)
  case Nil
  then show ?case by simp
next
  case (Cons l ls)
  from Cons.prems(1) obtain deb1 d1 e1 where step: "control_line deb d l = Returns (deb1, d1, e1)"
    by (cases "control_line deb d l") auto
  from Cons.prems(2) have l: "field_name l \<noteq> field" and ls: "field \<notin> field_name ` set ls"
    by auto
  note keep = control_line_keeps_field [OF step l Cons.prems(3)]
  show ?case
  proof (cases e1)
    case None
    with step Cons.prems(1) have "parse_control_lines deb1 d1 ls scan_err = Returns (deb', r)"
      by simp
    from Cons.IH [OF this ls] keep show ?thesis by simp
  next
    case (Some err)
    with step Cons.prems(1) have "deb' = deb1" by simp
    with keep show ?thesis by simp
  qed
qed

lemma parse_control_lines_reach:
  assumes "parse_control_lines deb d (pre @ l # post) None = Returns (deb', None)"
  shows "\<exists>deb1 d1 deb2 d2. control_line deb1 d1 l = Returns (deb2, d2, None)
           \<and> parse_control_lines deb2 d2 post None = Returns (deb', None)"
  using assms
proof (induction pre arbitrary: deb d)
  case Nil
  then obtain deb2 d2 e where step: "control_line deb d l = Returns (deb2, d2, e)"
    by (cases "control_line deb d l") auto
  with Nil have "e = None" by (cases e) auto
  with step Nil show ?case by auto
next
  case (Cons p pre)
  then obtain deb2 d2 e where step: "control_line deb d p = Returns (deb2, d2, e)"
    by (cases "control_line deb d p") auto
  with Cons.prems have "e = None" by (cases e) auto
  with step Cons.prems have "parse_control_lines deb2 d2 (pre @ l # post) None = Returns (deb', None)"
    by simp
  then show ?case by (rule Cons.IH)
qed

lemma TrimSpace_Depends: "TrimSpace ''Depends'' = ''Depends''"
  by code_simp

lemma control_line_Depends:
  "control_line deb d (''Depends: '' @ v)
   = Returns (deb\<lparr>Depends := SplitN (TrimSpace v) '', '' (- 1)\<rparr>, False, None)"
  using control_line_field [of "''Depends''" deb d v]
  by (simp add: continuation_chars_def TrimSpace_Depends switch_name_def)

lemma parse_control_last_field:
  assumes scan: "Scanner reader = (pre @ l # post, None)"
    and ret: "parse_control deb reader = Returns (deb', None)"
    and post: "field \<notin> field_name ` set post"
    and line: "\<And>deb1 d1. control_line deb1 d1 l = Returns (upd deb1, flag, None)"
    and upd: "\<And>deb1. control_field field (upd deb1) = x"
    and flag: "field = ''Description'' \<Longrightarrow> \<not> flag"
  shows "control_field field deb' = x"
proof -
  from scan ret have "parse_control_lines deb False (pre @ l # post) None = Returns (deb', None)"
    by (simp add: parse_control_def)
  from parse_control_lines_reach [OF this] obtain deb1 d1 deb2 d2 where
    step: "control_line deb1 d1 l = Returns (deb2, d2, None)"
    and rest: "parse_control_lines deb2 d2 post None = Returns (deb', None)"
    by blast
  from line [of deb1 d1] step have "deb2 = upd deb1" and "d2 = flag" by simp_all
  with upd [of deb1] flag have "control_field field deb2 = x" and "field = ''Description'' \<Longrightarrow> \<not> d2"
    by simp_all
  with parse_control_lines_keeps_field [OF rest post] show ?thesis by simp
qed

lemma trim_spaces_ascii: "list_all asciiSpace s \<Longrightarrow> trim_spaces runes s = []"
proof (induction s)
  case Nil
  show ?case by (simp add: trim_spaces.simps [of _ "[]"] space_width_def)
next
  case (Cons c s)
  then have "space_width runes (c # s) = 1" by (simp add: space_width_def)
  with Cons show ?case by (simp add: trim_spaces.simps [of _ "c # s"])
qed

lemma TrimSpace_ascii: "list_all asciiSpace s \<Longrightarrow> TrimSpace s = []"
  by (simp add: TrimSpace_def TrimLeft_def TrimRight_def trim_spaces_ascii)

lemma TrimSpace_list_names:
  "TrimSpace ''Recommends'' = ''Recommends''" "TrimSpace ''Built-Using'' = ''Built-Using''"
  by code_simp+

lemma SplitN_empty: "SplitN [] '', '' (- 1) = [[]]"
  by code_simp

lemma control_line_Recommends:
  "control_line deb d (''Recommends: '' @ v)
   = Returns (deb\<lparr>Recommends := SplitN (TrimSpace v) '', '' (- 1)\<rparr>, False, None)"
  using control_line_field [of "''Recommends''" deb d v]
  by (simp add: continuation_chars_def TrimSpace_list_names switch_name_def)

lemma control_line_BuiltUsing:
  "control_line deb d (''Built-Using: '' @ v)
   = Returns (deb\<lparr>BuiltUsing := SplitN (TrimSpace v) '', '' (- 1)\<rparr>, False, None)"
  using control_line_field [of "''Built-Using''" deb d v]
  by (simp add: continuation_chars_def TrimSpace_list_names switch_name_def)

lemma Scanner_Depends_only: "Scanner (''Depends: '' @ [LF], io_EOF) = ([''Depends: ''], None)"
  by code_simp

section \<open>The version token and the walk\<close>

lemma parse_debian_binary_sentinel:
  "CHR 0x00 \<in> set (fst r) \<Longrightarrow> parse_debian_binary deb r = (deb, None)"
  by (simp add: parse_debian_binary_def ReadString_def errors_Wrap_def)

lemma parse_debian_binary_EOF:
  "CHR 0x00 \<notin> set content \<Longrightarrow>
   parse_debian_binary deb (content, io_EOF) = (deb\<lparr>DebVersion := TrimSpace content\<rparr>, None)"
  by (simp add: parse_debian_binary_def ReadString_def)

lemma parse_debian_binary_failure:
  "CHR 0x00 \<notin> set content \<Longrightarrow> fin \<noteq> io_EOF \<Longrightarrow>
   parse_debian_binary deb (content, fin)
   = (deb, Some (Wrapped fin ''Cannot read DEB version string''))"
  by (simp add: parse_debian_binary_def ReadString_def errors_Wrap_def)

lemma Parse_members_debian_binary:
  assumes "hdr_Name header = ''debian-binary''"
  shows "Parse_members c filename deb out ((header, body) # rest) err =
     (case parse_debian_binary deb (io_LimitReader body (hdr_Size header)) of
        (deb', None) \<Rightarrow> Parse_members c filename deb' out rest err
      | (deb', Some e) \<Rightarrow> (out, Returns (Inl e)))"
  using assms by (simp add: after_member_def split: prod.splits option.splits)

lemma Parse_single:
  assumes "os_Open c filename = Inr file" and "file_Stat file = Inr modtime"
    and "file_ar file = (members, err)"
  shows "Parse c filename = Parse_members c filename (new_DEBPackage filename modtime) [] members err"
  using assms by (simp add: Parse_def)

lemma Parse_members_data:
  assumes "hdr_Name header \<in> set data_member_names"
  shows "Parse_members c filename deb out ((header, body) # rest) err = (out, Returns (Inr deb))"
  using assms by (auto simp: data_member_names_def)

lemma Parse_members_stop:
  assumes "hdr_Name header \<in> set data_member_names"
  shows "Parse_members c filename deb out (pre @ (header, body) # rest) err
         = Parse_members c filename deb out pre io_EOF"
proof (induction pre arbitrary: deb out)
  case Nil
  show ?case using Parse_members_data [OF assms] by simp
next
  case (Cons m pre)
  obtain h b where m: "m = (h, b)" by (cases m)
  show ?case unfolding m by (simp add: Cons.IH split: sum.splits)
qed

lemma parse_debian_binary_shape:
  "\<exists>v. parse_debian_binary deb r
       = (deb\<lparr>DebVersion := v\<rparr>, snd (parse_debian_binary (new_DEBPackage [] 0) r))"
proof -
  obtain version e where rs: "ReadString r (CHR 0x00) = (version, e)"
    by (cases "ReadString r (CHR 0x00)")
  show ?thesis
  proof (cases "e = Some io_EOF")
    case True
    with rs have "parse_debian_binary deb r
        = (deb\<lparr>DebVersion := TrimSpace version\<rparr>,
           snd (parse_debian_binary (new_DEBPackage [] 0) r))"
      by (simp add: parse_debian_binary_def)
    then show ?thesis by blast
  next
    case False
    with rs have "parse_debian_binary deb r
        = (deb\<lparr>DebVersion := DebVersion deb\<rparr>,
           snd (parse_debian_binary (new_DEBPackage [] 0) r))"
      by (simp add: parse_debian_binary_def)
    then show ?thesis by blast
  qed
qed

lemma Parse_members_no_control:
  assumes "no_control_member members"
  shows "\<exists>out' v. Parse_members c filename deb out members io_EOF
           = (out', Returns (Inr (deb\<lparr>DebVersion := v\<rparr>)))"
  using assms
proof (induction members arbitrary: deb out)
  case Nil
  have "deb = deb\<lparr>DebVersion := DebVersion deb\<rparr>" by simp
  then have "Parse_members c filename deb out [] io_EOF
      = (out, Returns (Inr (deb\<lparr>DebVersion := DebVersion deb\<rparr>)))" by simp
  then show ?case by blast
next
  case (Cons m members)
  obtain h b where m: "m = (h, b)" by (cases m)
  from Cons.prems have rest: "no_control_member members"
    by (simp add: no_control_member_def split: if_splits)
  from Cons.prems m have nc: "hdr_Name h \<notin> set control_member_names"
    by (simp add: no_control_member_def)
  show ?case
  proof (cases "hdr_Name h = ''debian-binary''")
    case True
    with Cons.prems m have "version_readable (h, b)"
      by (simp add: no_control_member_def)
    then have "snd (parse_debian_binary (new_DEBPackage [] 0) (io_LimitReader b (hdr_Size h))) = None"
      by (simp add: version_readable_def)
    with parse_debian_binary_shape [of deb "io_LimitReader b (hdr_Size h)"]
    obtain w where w: "parse_debian_binary deb (io_LimitReader b (hdr_Size h))
        = (deb\<lparr>DebVersion := w\<rparr>, None)" by auto
    from Cons.IH [OF rest, of "deb\<lparr>DebVersion := w\<rparr>" out] obtain out' v where
      "Parse_members c filename (deb\<lparr>DebVersion := w\<rparr>) out members io_EOF
        = (out', Returns (Inr (deb\<lparr>DebVersion := w, DebVersion := v\<rparr>)))" by blast
    with True w m have "Parse_members c filename deb out (m # members) io_EOF
        = (out', Returns (Inr (deb\<lparr>DebVersion := v\<rparr>)))"
      by (simp add: after_member_def)
    then show ?thesis by blast
  next
    case False
    show ?thesis
    proof (cases "hdr_Name h \<in> set data_member_names")
      case True
      have "deb = deb\<lparr>DebVersion := DebVersion deb\<rparr>" by simp
      with Parse_members_data [OF True, of c filename deb out b members io_EOF] m
      have "Parse_members c filename deb out (m # members) io_EOF
          = (out, Returns (Inr (deb\<lparr>DebVersion := DebVersion deb\<rparr>)))" by simp
      then show ?thesis by blast
    next
      case data: False
      from Cons.IH [OF rest, of deb "out @ [hdr_Name h]"] obtain out' v where
        "Parse_members c filename deb (out @ [hdr_Name h]) members io_EOF
          = (out', Returns (Inr (deb\<lparr>DebVersion := v\<rparr>)))" by blast
      with False data nc m have "Parse_members c filename deb out (m # members) io_EOF
          = (out', Returns (Inr (deb\<lparr>DebVersion := v\<rparr>)))"
        by (simp add: data_member_names_def control_member_names_def)
      then show ?thesis by blast
    qed
  qed
qed

lemma control_line_returns:
  assumes "l \<noteq> []"
  shows "\<exists>deb' d' e. control_line deb d l = Returns (deb', d', e)"
proof (cases "d \<and> ContainsAny (take 1 l) continuation_chars")
  case True
  with assms have "control_line deb d l
      = Returns (deb\<lparr>Description := Description deb @ l\<rparr>, True, None)"
    by (simp add: control_line_eq)
  then show ?thesis by blast
next
  case False
  obtain name val where nv: "parse_control_field deb l = (name, val)"
    by (cases "parse_control_field deb l")
  obtain deb' d' e where "switch_name deb name val = (deb', d', e)"
    by (cases "switch_name deb name val")
  with False nv assms have "control_line deb d l = Returns (deb', d', e)"
    by (auto simp: control_line_eq)
  then show ?thesis by blast
qed

lemma parse_control_lines_returns:
  "[] \<notin> set ls \<Longrightarrow> \<exists>deb' r. parse_control_lines deb d ls scan_err = Returns (deb', r)"
proof (induction ls arbitrary: deb d)
  case Nil
  show ?case by simp
next
  case (Cons l ls)
  then have "l \<noteq> []" and ls: "[] \<notin> set ls" by auto
  from control_line_returns [OF this(1), of deb d] obtain deb1 d1 e where
    step: "control_line deb d l = Returns (deb1, d1, e)" by blast
  show ?case
  proof (cases e)
    case None
    with step Cons.IH [OF ls, of deb1 d1] show ?thesis by simp
  next
    case (Some err)
    with step show ?thesis by simp
  qed
qed

lemma parse_control_keeps_field:
  assumes "parse_control deb reader = Returns (deb', r)"
    and "field \<notin> field_name ` set (fst (Scanner reader))"
  shows "control_field field deb' = control_field field deb"
proof -
  obtain ls scan_err where sc: "Scanner reader = (ls, scan_err)" by (cases "Scanner reader")
  with assms have "parse_control_lines deb False ls scan_err = Returns (deb', r)"
    and "field \<notin> field_name ` set ls" by (simp_all add: parse_control_def)
  then show ?thesis by (rule parse_control_lines_keeps_field) simp
qed

lemma control_field_new:
  "control_field field (new_DEBPackage filename modtime)
   \<in> set [None, Some (Text []), Some (List []), Some (Number 0)]"
  by (simp add: control_field_def new_DEBPackage_def)

lemma control_member_parsed:
  assumes codec: "(hdr_Name header = ''control.tar.gz''
          \<and> gzip_NewReader c (io_LimitReader body (hdr_Size header)) = Inr z)
        \<or> (hdr_Name header = ''control.tar.xz''
          \<and> xz_NewReader c (io_LimitReader body (hdr_Size header)) = Inr z)
        \<or> (hdr_Name header = ''control.tar.zst''
          \<and> zstd_NewReader c (io_LimitReader body (hdr_Size header)) = Inr z)"
    and tar: "tar_NewReader c z = ([(header', body')], io_EOF)"
    and name: "hdr_Name header' = ''./control''"
    and parsed: "parse_control deb (io_LimitReader body' (hdr_Size header')) = Returns (deb', r)"
  shows "Parse_members c filename deb out ((header, body) # rest) err
         = Parse_members c filename deb' out rest err"
proof -
  from tar name parsed have "parse_control_tar c deb z = Returns (deb', None)"
    by (simp add: parse_control_tar_def)
  with codec show ?thesis
    by (elim disjE conjE)
       (simp_all add: parse_control_tar_gz_def parse_control_tar_xz_def
          parse_control_tar_zst_def after_member_def)
qed

section \<open>The description and the installed size\<close>

lemma TrimSpace_field_names:
  "TrimSpace ''Description'' = ''Description''" "TrimSpace ''Installed-Size'' = ''Installed-Size''"
  by code_simp+

lemma control_line_Description:
  "control_line deb d (''Description: '' @ v)
   = Returns (deb\<lparr>Description := TrimSpace v\<rparr>, True, None)"
  using control_line_field [of "''Description''" deb d v]
  by (simp add: continuation_chars_def TrimSpace_field_names switch_name_def)

lemma control_line_InstalledSize:
  "control_line deb d (''Installed-Size: '' @ v)
   = (case ParseInt (TrimSpace v) of
        Inl err \<Rightarrow> Returns (deb, False, Some (Wrapped err ''Error parsing Installed-Size''))
      | Inr n \<Rightarrow> Returns (deb\<lparr>InstalledSize := n\<rparr>, False, None))"
  using control_line_field [of "''Installed-Size''" deb d v]
  by (simp add: continuation_chars_def TrimSpace_field_names switch_name_def split: sum.splits)

lemma control_line_continuation:
  assumes "l \<noteq> []" and "hd l \<in> set continuation_chars"
  shows "control_line deb True l = Returns (deb\<lparr>Description := Description deb @ l\<rparr>, True, None)"
proof -
  from assms obtain c cs where "l = c # cs" and "c \<in> set continuation_chars"
    by (cases l) auto
  then show ?thesis by (auto simp: control_line_eq ContainsAny_def)
qed

lemma control_line_continuation_ends:
  assumes "l \<noteq> []" and "hd l \<notin> set continuation_chars"
  shows "control_line deb True l = control_line deb False l"
proof -
  from assms obtain c cs where "l = c # cs" and "c \<notin> set continuation_chars"
    by (cases l) auto
  then show ?thesis by (simp add: control_line_eq ContainsAny_def)
qed

lemma control_line_empty_panics:
  "control_line deb True [] = Panics ''runtime error: slice bounds out of range [:1] with length 0''"
  by (simp add: control_line_eq)

lemma continuation_lines:
  assumes "list_all (\<lambda>l. l \<noteq> [] \<and> hd l \<in> set continuation_chars) conts"
  shows "parse_control_lines deb True (conts @ rest) scan_err
         = parse_control_lines (deb\<lparr>Description := Description deb @ concat conts\<rparr>) True rest scan_err"
  using assms
proof (induction conts arbitrary: deb)
  case Nil
  show ?case by simp
next
  case (Cons l conts)
  then have l: "l \<noteq> []" "hd l \<in> set continuation_chars"
    and rest: "list_all (\<lambda>l. l \<noteq> [] \<and> hd l \<in> set continuation_chars) conts" by simp_all
  from control_line_continuation [OF l, of deb] Cons.IH [OF rest, of "deb\<lparr>Description := Description deb @ l\<rparr>"]
  show ?case by simp
qed

lemma description_continuation:
  assumes "list_all (\<lambda>l. l \<noteq> [] \<and> hd l \<in> set continuation_chars) conts"
  shows "parse_control_lines deb d ((''Description: '' @ v) # conts @ rest) scan_err
         = parse_control_lines (deb\<lparr>Description := TrimSpace v @ concat conts\<rparr>) True rest scan_err"
proof -
  have "parse_control_lines deb d ((''Description: '' @ v) # conts @ rest) scan_err
      = parse_control_lines (deb\<lparr>Description := TrimSpace v\<rparr>) True (conts @ rest) scan_err"
    using control_line_Description [of deb d v] by simp
  also have "\<dots> = parse_control_lines
      (deb\<lparr>Description := TrimSpace v, Description := TrimSpace v @ concat conts\<rparr>) True rest scan_err"
    using continuation_lines [OF assms, of "deb\<lparr>Description := TrimSpace v\<rparr>" rest scan_err]
    by simp
  finally show ?thesis by simp
qed

lemma description_then_empty_line_panics:
  assumes "list_all (\<lambda>l. l \<noteq> [] \<and> hd l \<in> set continuation_chars) conts"
  shows "parse_control_lines deb d ((''Description: '' @ v) # conts @ [] # rest) scan_err
         = Panics ''runtime error: slice bounds out of range [:1] with length 0''"
  using description_continuation [OF assms, of deb d v "[] # rest" scan_err]
  by (simp add: control_line_empty_panics)

section \<open>The members of the tape archive\<close>

lemma parse_control_tar_members_skip:
  assumes "list_all (\<lambda>m. hdr_Name (fst m) \<noteq> ''./control'') pre"
  shows "parse_control_tar_members deb (pre @ rest) err = parse_control_tar_members deb rest err"
  using assms by (induction pre) (auto)

lemma parse_control_tar_members_error_lost:
  "parse_control_tar_members deb members io_EOF = Returns (deb', r) \<Longrightarrow> r = None"
proof (induction members arbitrary: deb)
  case Nil
  then show ?case by simp
next
  case (Cons m members)
  obtain h b where m: "m = (h, b)" by (cases m)
  show ?case
  proof (cases "hdr_Name h = ''./control''")
    case True
    with Cons.prems m obtain deb1 r1 where
      "parse_control deb (io_LimitReader b (hdr_Size h)) = Returns (deb1, r1)"
      by (cases "parse_control deb (io_LimitReader b (hdr_Size h))") auto
    with True Cons.prems m have "parse_control_tar_members deb1 members io_EOF = Returns (deb', r)"
      by simp
    then show ?thesis by (rule Cons.IH)
  next
    case False
    with Cons.prems m have "parse_control_tar_members deb members io_EOF = Returns (deb', r)"
      by simp
    then show ?thesis by (rule Cons.IH)
  qed
qed

lemma parse_control_returns:
  assumes "[] \<notin> set (fst (Scanner reader))"
  shows "\<exists>deb' r. parse_control deb reader = Returns (deb', r)"
proof -
  obtain ls scan_err where sc: "Scanner reader = (ls, scan_err)" by (cases "Scanner reader")
  with assms have "[] \<notin> set ls" by simp
  from parse_control_lines_returns [OF this, of deb False scan_err] sc show ?thesis
    by (simp add: parse_control_def)
qed

lemma parse_control_tar_members_read_error:
  assumes "err \<noteq> io_EOF"
    and "list_all (\<lambda>m. [] \<notin> set (fst (Scanner (io_LimitReader (snd m) (hdr_Size (fst m))))))
           [m \<leftarrow> members. hdr_Name (fst m) = ''./control'']"
  shows "\<exists>deb'. parse_control_tar_members deb members err
           = Returns (deb', Some (Wrapped err ''Error reading control.tar''))"
  using assms(2)
proof (induction members arbitrary: deb)
  case Nil
  with assms(1) show ?case by simp
next
  case (Cons m members)
  obtain h b where m: "m = (h, b)" by (cases m)
  show ?case
  proof (cases "hdr_Name h = ''./control''")
    case True
    with Cons.prems m have ne: "[] \<notin> set (fst (Scanner (io_LimitReader b (hdr_Size h))))"
      and rest: "list_all (\<lambda>m. [] \<notin> set (fst (Scanner (io_LimitReader (snd m) (hdr_Size (fst m))))))
           [m \<leftarrow> members. hdr_Name (fst m) = ''./control'']" by simp_all
    from parse_control_returns [OF ne, of deb] obtain deb1 r1 where
      "parse_control deb (io_LimitReader b (hdr_Size h)) = Returns (deb1, r1)" by blast
    with True m Cons.IH [OF rest, of deb1] show ?thesis by simp
  next
    case False
    with Cons.prems m have "list_all (\<lambda>m. [] \<notin> set (fst (Scanner (io_LimitReader (snd m) (hdr_Size (fst m))))))
           [m \<leftarrow> members. hdr_Name (fst m) = ''./control'']" by simp
    from Cons.IH [OF this, of deb] False m show ?thesis by simp
  qed
qed

section \<open>Trimming of ASCII strings and bounded contents\<close>

lemma io_LimitReader_declared:
  "io_LimitReader body (hdr_Size header) = declared_content (header, body)"
  by (simp add: io_LimitReader_def declared_content_def)

lemma space_runes_not_ASCII:
  "list_all (\<lambda>w. w \<noteq> [] \<and> \<not> isASCII (hd w)) space_runes"
  "list_all (\<lambda>w. w \<noteq> [] \<and> \<not> isASCII (hd w)) (map rev space_runes)"
  by code_simp+

lemma take_not_rune:
  assumes "list_all (\<lambda>w. w \<noteq> [] \<and> \<not> isASCII (hd w)) runes" and "isASCII c" and "0 < k"
  shows "take k (c # cs) \<notin> set runes"
proof
  assume "take k (c # cs) \<in> set runes"
  with assms(1) have "\<not> isASCII (hd (take k (c # cs)))" by (simp add: list_all_iff)
  moreover from assms(3) have "hd (take k (c # cs)) = c" by (cases k) simp_all
  ultimately show False using assms(2) by simp
qed

lemma trim_spaces_ASCII:
  assumes "list_all (\<lambda>w. w \<noteq> [] \<and> \<not> isASCII (hd w)) runes" and "list_all isASCII s"
  shows "trim_spaces runes s = dropWhile white_space s"
  using assms(2)
proof (induction s)
  case Nil
  show ?case by (simp add: trim_spaces.simps [of _ "[]"] space_width_def)
next
  case (Cons c cs)
  then have c: "isASCII c" and cs: "list_all isASCII cs" by simp_all
  show ?case
  proof (cases "asciiSpace c")
    case True
    then have "space_width runes (c # cs) = 1" by (simp add: space_width_def)
    with True Cons.IH [OF cs] show ?thesis
      by (simp add: trim_spaces.simps [of _ "c # cs"] white_space_def asciiSpace_def)
  next
    case False
    from take_not_rune [OF assms(1) c, of 2 cs] take_not_rune [OF assms(1) c, of 3 cs] False
    have "space_width runes (c # cs) = 0" by (simp add: space_width_def)
    with False show ?thesis
      by (simp add: trim_spaces.simps [of _ "c # cs"] white_space_def asciiSpace_def)
  qed
qed

lemma TrimSpace_ASCII:
  assumes "list_all isASCII s"
  shows "TrimSpace s = trimmed s"
proof -
  have left: "TrimLeft s = dropWhile white_space s"
    unfolding TrimLeft_def using space_runes_not_ASCII(1) assms by (rule trim_spaces_ASCII)
  have "list_all isASCII (dropWhile white_space s)"
    using assms by (induction s) simp_all
  then have "list_all isASCII (rev (dropWhile white_space s))" by (simp add: list_all_iff)
  with space_runes_not_ASCII(2)
  have "trim_spaces (map rev space_runes) (rev (dropWhile white_space s))
      = dropWhile white_space (rev (dropWhile white_space s))"
    by (rule trim_spaces_ASCII)
  with left show ?thesis by (simp add: TrimSpace_def TrimRight_def trimmed_def)
qed

section \<open>What the control members never touch\<close>

lemma switch_name_DebVersion:
  "DebVersion (fst (switch_name deb name val)) = DebVersion deb"
proof (cases "name \<in> set [''Architecture'', ''Built-Using'', ''Depends'', ''Description'',
      ''Homepage'', ''Installed-Size'', ''Maintainer'', ''Package'', ''Priority'',
      ''Recommends'', ''Section'', ''Version'']")
  case True
  from switch_name_known [OF True] show ?thesis
    by (elim disjE) (simp_all add: switch_name_def split: sum.splits)
next
  case False
  then show ?thesis by (simp only: switch_name_other fst_conv simp_thms)
qed

lemma control_line_DebVersion:
  assumes "control_line deb d l = Returns (deb', d', e)"
  shows "DebVersion deb' = DebVersion deb"
proof (cases "d \<and> ContainsAny (take 1 l) continuation_chars")
  case True
  with assms have "deb' = deb\<lparr>Description := Description deb @ l\<rparr>"
    by (auto simp: control_line_eq split: if_splits)
  then show ?thesis by simp
next
  case False
  obtain name val where nv: "parse_control_field deb l = (name, val)"
    by (cases "parse_control_field deb l")
  with False assms have "switch_name deb name val = (deb', d', e)"
    by (auto simp: control_line_eq split: if_splits)
  with switch_name_DebVersion [of deb name val] show ?thesis by simp
qed

lemma parse_control_lines_DebVersion:
  "parse_control_lines deb d ls scan_err = Returns (deb', r) \<Longrightarrow> DebVersion deb' = DebVersion deb"
proof (induction ls arbitrary: deb d)
  case Nil
  then show ?case by simp
next
  case (Cons l ls)
  from Cons.prems obtain deb1 d1 e1 where step: "control_line deb d l = Returns (deb1, d1, e1)"
    by (cases "control_line deb d l") auto
  note keep = control_line_DebVersion [OF step]
  show ?case
  proof (cases e1)
    case None
    with step Cons.prems have "parse_control_lines deb1 d1 ls scan_err = Returns (deb', r)"
      by simp
    from Cons.IH [OF this] keep show ?thesis by simp
  next
    case (Some err)
    with step Cons.prems have "deb' = deb1" by simp
    with keep show ?thesis by simp
  qed
qed

lemma parse_control_DebVersion:
  "parse_control deb reader = Returns (deb', r) \<Longrightarrow> DebVersion deb' = DebVersion deb"
  by (cases "Scanner reader") (auto simp: parse_control_def dest: parse_control_lines_DebVersion)

lemma parse_control_tar_members_DebVersion:
  "parse_control_tar_members deb members err = Returns (deb', r) \<Longrightarrow> DebVersion deb' = DebVersion deb"
proof (induction members arbitrary: deb)
  case Nil
  then show ?case by simp
next
  case (Cons m members)
  obtain h b where m: "m = (h, b)" by (cases m)
  show ?case
  proof (cases "hdr_Name h = ''./control''")
    case True
    with Cons.prems m obtain deb1 r1 where
      p: "parse_control deb (io_LimitReader b (hdr_Size h)) = Returns (deb1, r1)"
      by (cases "parse_control deb (io_LimitReader b (hdr_Size h))") auto
    with True Cons.prems m have "parse_control_tar_members deb1 members err = Returns (deb', r)"
      by simp
    from Cons.IH [OF this] parse_control_DebVersion [OF p] show ?thesis by simp
  next
    case False
    with Cons.prems m have "parse_control_tar_members deb members err = Returns (deb', r)"
      by simp
    then show ?thesis by (rule Cons.IH)
  qed
qed

lemma parse_control_tar_DebVersion:
  "parse_control_tar c deb reader = Returns (deb', r) \<Longrightarrow> DebVersion deb' = DebVersion deb"
  by (cases "tar_NewReader c reader")
     (auto simp: parse_control_tar_def dest: parse_control_tar_members_DebVersion)

lemma parse_control_tar_codecs_DebVersion:
  "parse_control_tar_gz c deb reader = Returns (deb', r) \<Longrightarrow> DebVersion deb' = DebVersion deb"
  "parse_control_tar_xz c deb reader = Returns (deb', r) \<Longrightarrow> DebVersion deb' = DebVersion deb"
  "parse_control_tar_zst c deb reader = Returns (deb', r) \<Longrightarrow> DebVersion deb' = DebVersion deb"
  by (auto simp: parse_control_tar_gz_def parse_control_tar_xz_def parse_control_tar_zst_def
      split: sum.splits dest: parse_control_tar_DebVersion)

lemma after_member_DebVersion:
  assumes "after_member out x = Inr deb'"
    and "\<And>r. x = Returns (deb', r) \<Longrightarrow> DebVersion deb' = DebVersion deb"
  shows "DebVersion deb' = DebVersion deb"
  using assms by (auto simp: after_member_def split: exec.splits prod.splits option.splits)

lemma after_member_no_record:
  "after_member out x \<noteq> Inl (out', Returns (Inr deb'))"
  by (auto simp: after_member_def split: exec.splits prod.splits option.splits)

lemma Parse_members_DebVersion:
  assumes "list_all (\<lambda>m. hdr_Name (fst m) \<noteq> ''debian-binary'') members"
    and "Parse_members c filename deb out members err = (out', Returns (Inr deb'))"
  shows "DebVersion deb' = DebVersion deb"
  using assms
proof (induction members arbitrary: deb out)
  case Nil
  then show ?case by (simp split: if_splits)
next
  case (Cons m members)
  obtain h b where m: "m = (h, b)" by (cases m)
  from Cons.prems(1) m have nb: "hdr_Name h \<noteq> ''debian-binary''"
    and rest: "list_all (\<lambda>m. hdr_Name (fst m) \<noteq> ''debian-binary'') members" by simp_all
  let ?r = "io_LimitReader b (hdr_Size h)"
  consider (gz) "hdr_Name h = ''control.tar.gz''" | (xz) "hdr_Name h = ''control.tar.xz''"
    | (zst) "hdr_Name h = ''control.tar.zst''"
    | (data) "hdr_Name h \<in> set data_member_names"
    | (other) "hdr_Name h \<notin> set control_member_names" "hdr_Name h \<notin> set data_member_names"
    by (auto simp: control_member_names_def)
  then show ?case
  proof cases
    case gz
    with Cons.prems(2) m nb obtain deb1 where
      a: "after_member out (parse_control_tar_gz c deb ?r) = Inr deb1"
      and w: "Parse_members c filename deb1 out members err = (out', Returns (Inr deb'))"
      by (cases "after_member out (parse_control_tar_gz c deb ?r)")
         (auto simp: after_member_no_record)
    from a have "DebVersion deb1 = DebVersion deb"
      by (rule after_member_DebVersion) (rule parse_control_tar_codecs_DebVersion(1))
    with Cons.IH [OF rest w] show ?thesis by simp
  next
    case xz
    with Cons.prems(2) m nb obtain deb1 where
      a: "after_member out (parse_control_tar_xz c deb ?r) = Inr deb1"
      and w: "Parse_members c filename deb1 out members err = (out', Returns (Inr deb'))"
      by (cases "after_member out (parse_control_tar_xz c deb ?r)")
         (auto simp: after_member_no_record)
    from a have "DebVersion deb1 = DebVersion deb"
      by (rule after_member_DebVersion) (rule parse_control_tar_codecs_DebVersion(2))
    with Cons.IH [OF rest w] show ?thesis by simp
  next
    case zst
    with Cons.prems(2) m nb obtain deb1 where
      a: "after_member out (parse_control_tar_zst c deb ?r) = Inr deb1"
      and w: "Parse_members c filename deb1 out members err = (out', Returns (Inr deb'))"
      by (cases "after_member out (parse_control_tar_zst c deb ?r)")
         (auto simp: after_member_no_record)
    from a have "DebVersion deb1 = DebVersion deb"
      by (rule after_member_DebVersion) (rule parse_control_tar_codecs_DebVersion(3))
    with Cons.IH [OF rest w] show ?thesis by simp
  next
    case data
    from Parse_members_data [OF data, of c filename deb out b members err] Cons.prems(2) m
    show ?thesis by simp
  next
    case other
    with Cons.prems(2) m nb
    have "Parse_members c filename deb (out @ [hdr_Name h]) members err = (out', Returns (Inr deb'))"
      by (simp add: control_member_names_def data_member_names_def)
    from Cons.IH [OF rest this] show ?thesis .
  qed
qed

section \<open>When the control-text parser panics\<close>

lemma switch_name_flow:
  "snd (switch_name deb name val) = snd (switch_name deb0 name val)"
proof (cases "name \<in> set [''Architecture'', ''Built-Using'', ''Depends'', ''Description'',
      ''Homepage'', ''Installed-Size'', ''Maintainer'', ''Package'', ''Priority'',
      ''Recommends'', ''Section'', ''Version'']")
  case True
  from switch_name_known [OF True] show ?thesis
    by (elim disjE) (simp_all add: switch_name_def split: sum.splits)
next
  case False
  then show ?thesis by (simp only: switch_name_other snd_conv simp_thms)
qed

lemma control_line_flow:
  "(case control_line deb d l of Panics p \<Rightarrow> Panics p | Returns x \<Rightarrow> Returns (snd x))
   = (case control_line deb0 d l of Panics p \<Rightarrow> Panics p | Returns x \<Rightarrow> Returns (snd x))"
proof -
  obtain name val where nv: "parse_control_field deb l = (name, val)"
    by (cases "parse_control_field deb l")
  with parse_control_field_deb [of deb l deb0] have nv0: "parse_control_field deb0 l = (name, val)"
    by simp
  from nv nv0 switch_name_flow [of deb name val deb0] show ?thesis
    by (simp add: control_line_eq)
qed

lemma parse_control_lines_panics:
  "parse_control_lines deb d ls scan_err = Panics p
   \<Longrightarrow> parse_control_lines deb0 d ls scan_err = Panics p"
proof (induction ls arbitrary: deb deb0 d)
  case Nil
  then show ?case by simp
next
  case (Cons l ls)
  show ?case
  proof (cases "control_line deb d l")
    case (Panics q)
    with control_line_flow [of deb d l deb0] have "control_line deb0 d l = Panics q"
      by (cases "control_line deb0 d l") simp_all
    with Panics Cons.prems show ?thesis by simp
  next
    case (Returns x)
    obtain deb1 d1 e1 where x: "x = (deb1, d1, e1)" by (cases x)
    with Returns control_line_flow [of deb d l deb0] obtain deb2 where
      other: "control_line deb0 d l = Returns (deb2, d1, e1)"
      by (cases "control_line deb0 d l") auto
    show ?thesis
    proof (cases e1)
      case None
      with Returns x Cons.prems have "parse_control_lines deb1 d1 ls scan_err = Panics p"
        by simp
      from Cons.IH [OF this, of deb2] other None show ?thesis by simp
    next
      case (Some err)
      with Returns x Cons.prems show ?thesis by simp
    qed
  qed
qed

lemma parse_control_panics:
  "(\<exists>p. parse_control deb r = Panics p) \<longleftrightarrow> control_panics r"
proof -
  obtain ls scan_err where sc: "Scanner r = (ls, scan_err)" by (cases "Scanner r")
  have "(\<exists>p. parse_control_lines deb False ls scan_err = Panics p)
      \<longleftrightarrow> (\<exists>p. parse_control_lines (new_DEBPackage [] 0) False ls scan_err = Panics p)"
    using parse_control_lines_panics by blast
  with sc show ?thesis
    by (cases "parse_control_lines (new_DEBPackage [] 0) False ls scan_err")
       (auto simp: parse_control_def control_panics_def)
qed

lemma parse_control_returns_unless_panics:
  assumes "\<not> control_panics r"
  shows "\<exists>deb' e. parse_control deb r = Returns (deb', e)"
proof (cases "parse_control deb r")
  case (Returns x)
  then show ?thesis by (cases x) simp
next
  case (Panics p)
  with parse_control_panics [of deb r] assms show ?thesis by blast
qed

lemma parse_control_tar_members_fatal:
  assumes "err \<noteq> io_EOF"
    and "list_all (\<lambda>m. \<not> control_panics (declared_content m))
           [m \<leftarrow> members. hdr_Name (fst m) = ''./control'']"
  shows "\<exists>left. parse_control_tar_members deb members err
           = Returns (left, Some (Wrapped err ''Error reading control.tar''))"
  using assms(2)
proof (induction members arbitrary: deb)
  case Nil
  with assms(1) show ?case by simp
next
  case (Cons m members)
  obtain h b where m: "m = (h, b)" by (cases m)
  show ?case
  proof (cases "hdr_Name h = ''./control''")
    case True
    with Cons.prems m have ne: "\<not> control_panics (declared_content (h, b))"
      and rest: "list_all (\<lambda>m. \<not> control_panics (declared_content m))
           [m \<leftarrow> members. hdr_Name (fst m) = ''./control'']" by simp_all
    from parse_control_returns_unless_panics [OF ne, of deb] obtain deb1 r1 where
      "parse_control deb (io_LimitReader b (hdr_Size h)) = Returns (deb1, r1)"
      by (auto simp: io_LimitReader_declared)
    with True m Cons.IH [OF rest, of deb1] show ?thesis by simp
  next
    case False
    with Cons.prems m have "list_all (\<lambda>m. \<not> control_panics (declared_content m))
           [m \<leftarrow> members. hdr_Name (fst m) = ''./control'']" by simp
    from Cons.IH [OF this, of deb] False m show ?thesis by simp
  qed
qed

section \<open>A walk that returns a record\<close>

lemma Parse_members_passes:
  assumes "list_all (\<lambda>m. hdr_Name (fst m) \<notin> set data_member_names) pre"
    and "Parse_members c filename deb out (pre @ ms) err = (out', Returns (Inr deb'))"
  shows "\<exists>deb1 out1. Parse_members c filename deb1 out1 ms err = (out', Returns (Inr deb'))"
  using assms
proof (induction pre arbitrary: deb out)
  case Nil
  then show ?case by auto
next
  case (Cons m pre)
  obtain h b where m: "m = (h, b)" by (cases m)
  from Cons.prems(1) m have nd: "hdr_Name h \<noteq> ''data.tar.gz''" "hdr_Name h \<noteq> ''data.tar.xz''"
    "hdr_Name h \<noteq> ''data.tar.zst''" and pre: "list_all (\<lambda>m. hdr_Name (fst m) \<notin> set data_member_names) pre"
    by (auto simp: data_member_names_def)
  from Cons.prems(2) m nd
  have "\<exists>deb2 out2. Parse_members c filename deb2 out2 (pre @ ms) err = (out', Returns (Inr deb'))"
    by (auto simp: after_member_no_record split: if_splits sum.splits)
  then obtain deb2 out2
    where "Parse_members c filename deb2 out2 (pre @ ms) err = (out', Returns (Inr deb'))"
    by blast
  with pre show ?case by (rule Cons.IH)
qed

lemma Parse_members_version:
  assumes "hdr_Name header = ''debian-binary''"
    and "declared_content (header, body) = (content, io_EOF)"
    and "CHR 0x00 \<notin> set content"
    and "list_all (\<lambda>m. hdr_Name (fst m) \<notin> set data_member_names) pre"
    and "list_all (\<lambda>m. hdr_Name (fst m) \<noteq> ''debian-binary'') rest"
    and "Parse_members c filename deb out (pre @ (header, body) # rest) err
         = (out', Returns (Inr deb'))"
  shows "DebVersion deb' = TrimSpace content"
proof -
  from Parse_members_passes [OF assms(4) assms(6)] obtain deb1 out1
    where "Parse_members c filename deb1 out1 ((header, body) # rest) err
           = (out', Returns (Inr deb'))"
    by blast
  moreover have "parse_debian_binary deb1 (io_LimitReader body (hdr_Size header))
      = (deb1\<lparr>DebVersion := TrimSpace content\<rparr>, None)"
    using assms(2,3) by (simp add: io_LimitReader_declared parse_debian_binary_EOF)
  ultimately have "Parse_members c filename (deb1\<lparr>DebVersion := TrimSpace content\<rparr>) out1 rest err
      = (out', Returns (Inr deb'))"
    by (simp only: Parse_members_debian_binary [OF assms(1)] prod.case option.case)
  with assms(5) have "DebVersion deb' = DebVersion (deb1\<lparr>DebVersion := TrimSpace content\<rparr>)"
    by (rule Parse_members_DebVersion)
  then show ?thesis by simp
qed

lemma Parse_members_control_gz:
  assumes "hdr_Name ch = ''control.tar.gz''"
    and "parse_control_tar_gz c deb (declared_content (ch, cb)) = Returns (deb', None)"
  shows "Parse_members c filename deb out ((ch, cb) # rest) err
         = Parse_members c filename deb' out rest err"
  using assms by (simp add: after_member_def io_LimitReader_declared)

section \<open>Fields that no control text names\<close>

lemma parse_control_tar_members_optional:
  assumes "list_all (\<lambda>m. \<not> control_panics (declared_content m)
                        \<and> field \<notin> field_name ` set (fst (Scanner (declared_content m))))
             [m \<leftarrow> members. hdr_Name (fst m) = ''./control'']"
  shows "\<exists>deb'. parse_control_tar_members deb members io_EOF = Returns (deb', None)
           \<and> control_field field deb' = control_field field deb"
  using assms
proof (induction members arbitrary: deb)
  case Nil
  then show ?case by simp
next
  case (Cons m members)
  obtain h b where m: "m = (h, b)" by (cases m)
  show ?case
  proof (cases "hdr_Name h = ''./control''")
    case True
    with Cons.prems m have ne: "\<not> control_panics (declared_content (h, b))"
      and lack: "field \<notin> field_name ` set (fst (Scanner (declared_content (h, b))))"
      and rest: "list_all (\<lambda>m. \<not> control_panics (declared_content m)
                        \<and> field \<notin> field_name ` set (fst (Scanner (declared_content m))))
           [m \<leftarrow> members. hdr_Name (fst m) = ''./control'']" by simp_all
    from parse_control_returns_unless_panics [OF ne, of deb] obtain deb1 r1 where
      p: "parse_control deb (declared_content (h, b)) = Returns (deb1, r1)"
      by blast
    from p lack have keep: "control_field field deb1 = control_field field deb"
      by (rule parse_control_keeps_field)
    from Cons.IH [OF rest, of deb1] obtain deb' where
      "parse_control_tar_members deb1 members io_EOF = Returns (deb', None)"
      "control_field field deb' = control_field field deb1" by blast
    with True m p keep show ?thesis by (simp add: io_LimitReader_declared)
  next
    case False
    with Cons.prems m have "list_all (\<lambda>m. \<not> control_panics (declared_content m)
                        \<and> field \<notin> field_name ` set (fst (Scanner (declared_content m))))
           [m \<leftarrow> members. hdr_Name (fst m) = ''./control'']" by simp
    from Cons.IH [OF this, of deb] False m show ?thesis by simp
  qed
qed

lemma control_member_optional:
  assumes codec: "(hdr_Name header = ''control.tar.gz''
          \<and> gzip_NewReader c (declared_content (header, body)) = Inr z)
        \<or> (hdr_Name header = ''control.tar.xz''
          \<and> xz_NewReader c (declared_content (header, body)) = Inr z)
        \<or> (hdr_Name header = ''control.tar.zst''
          \<and> zstd_NewReader c (declared_content (header, body)) = Inr z)"
    and tar: "tar_NewReader c z = (inner, io_EOF)"
    and texts: "list_all (\<lambda>m. \<not> control_panics (declared_content m)
                        \<and> field \<notin> field_name ` set (fst (Scanner (declared_content m))))
             [m \<leftarrow> inner. hdr_Name (fst m) = ''./control'']"
  shows "\<exists>parsed. Parse_members c filename deb out ((header, body) # rest) err
                    = Parse_members c filename parsed out rest err
           \<and> control_field field parsed = control_field field deb"
proof -
  from parse_control_tar_members_optional [OF texts, of deb] obtain parsed where
    p: "parse_control_tar_members deb inner io_EOF = Returns (parsed, None)"
    and keep: "control_field field parsed = control_field field deb" by blast
  from tar p have "parse_control_tar c deb z = Returns (parsed, None)"
    by (simp add: parse_control_tar_def)
  with codec have "Parse_members c filename deb out ((header, body) # rest) err
      = Parse_members c filename parsed out rest err"
    by (elim disjE conjE)
       (simp_all add: parse_control_tar_gz_def parse_control_tar_xz_def
          parse_control_tar_zst_def after_member_def io_LimitReader_declared)
  with keep show ?thesis by blast
qed

lemma Parse_members_before_control:
  assumes "no_control_member pre"
    and "list_all (\<lambda>m. hdr_Name (fst m) \<notin> set data_member_names) pre"
  shows "\<exists>out1 v. Parse_members c filename deb out (pre @ ms) err
           = Parse_members c filename (deb\<lparr>DebVersion := v\<rparr>) out1 ms err"
  using assms
proof (induction pre arbitrary: deb out)
  case Nil
  have "deb = deb\<lparr>DebVersion := DebVersion deb\<rparr>" by simp
  then have "Parse_members c filename deb out ([] @ ms) err
      = Parse_members c filename (deb\<lparr>DebVersion := DebVersion deb\<rparr>) out ms err" by simp
  then show ?case by blast
next
  case (Cons m pre)
  obtain h b where m: "m = (h, b)" by (cases m)
  from Cons.prems have rest: "no_control_member pre"
    by (simp add: no_control_member_def split: if_splits)
  from Cons.prems have nodata: "list_all (\<lambda>m. hdr_Name (fst m) \<notin> set data_member_names) pre"
    by simp
  from Cons.prems m have nc: "hdr_Name h \<notin> set control_member_names"
    by (simp add: no_control_member_def)
  from Cons.prems m have nd: "hdr_Name h \<notin> set data_member_names" by simp
  show ?case
  proof (cases "hdr_Name h = ''debian-binary''")
    case True
    with Cons.prems m have "version_readable (h, b)"
      by (simp add: no_control_member_def)
    then have "snd (parse_debian_binary (new_DEBPackage [] 0) (io_LimitReader b (hdr_Size h))) = None"
      by (simp add: version_readable_def)
    with parse_debian_binary_shape [of deb "io_LimitReader b (hdr_Size h)"]
    obtain w where w: "parse_debian_binary deb (io_LimitReader b (hdr_Size h))
        = (deb\<lparr>DebVersion := w\<rparr>, None)" by auto
    from Cons.IH [OF rest nodata, of "deb\<lparr>DebVersion := w\<rparr>" out] obtain out1 v where
      "Parse_members c filename (deb\<lparr>DebVersion := w\<rparr>) out (pre @ ms) err
        = Parse_members c filename (deb\<lparr>DebVersion := w, DebVersion := v\<rparr>) out1 ms err"
      by blast
    with True w m have "Parse_members c filename deb out ((m # pre) @ ms) err
        = Parse_members c filename (deb\<lparr>DebVersion := v\<rparr>) out1 ms err"
      by (simp add: after_member_def)
    then show ?thesis by blast
  next
    case False
    from Cons.IH [OF rest nodata, of deb "out @ [hdr_Name h]"] obtain out1 v where
      "Parse_members c filename deb (out @ [hdr_Name h]) (pre @ ms) err
        = Parse_members c filename (deb\<lparr>DebVersion := v\<rparr>) out1 ms err" by blast
    with False nd nc m have "Parse_members c filename deb out ((m # pre) @ ms) err
        = Parse_members c filename (deb\<lparr>DebVersion := v\<rparr>) out1 ms err"
      by (simp add: data_member_names_def control_member_names_def)
    then show ?thesis by blast
  qed
qed

lemma control_field_DebVersion:
  "control_field field (deb\<lparr>DebVersion := v\<rparr>) = control_field field deb"
  by (simp add: control_field_def)

text \<open>
  Every field of the record but the file path and the modification time is optional,
  as long as the control-text parser does not panic. For an opened file whose archive
  has no control member and ends regularly, or whose first control or data member is a
  data member, \<open>Parse\<close> returns the new record with at most the version string set.
  Whenever the control-text parser returns, a field that no line of the text names is
  as it was before. For an archive whose first control or data member is a control
  member, in any of the three compressions, followed by a data member or by the regular
  end of the archive, \<open>Parse\<close> succeeds and a field that no control text of that member
  names is as in the new record, where every control field has its zero value: the
  empty string, the empty list or 0. The \<open>debian-binary\<close> members are taken to be
  readable, the decompressor to accept the member and the inner archive to end
  regularly.
\<close>

lemma fields_optional:
  assumes "os_Open c filename = Inr file" and "file_Stat file = Inr modtime"
  shows
   "(file_ar file = (members, io_EOF) \<and> no_control_member members
       \<longrightarrow> (\<exists>out v. Parse c filename
              = (out, Returns (Inr (new_DEBPackage filename modtime\<lparr>DebVersion := v\<rparr>)))))
    \<and> (file_ar file = (pre @ (header, body) # rest, err) \<and> no_control_member pre
        \<and> hdr_Name header \<in> set data_member_names
       \<longrightarrow> (\<exists>out v. Parse c filename
              = (out, Returns (Inr (new_DEBPackage filename modtime\<lparr>DebVersion := v\<rparr>)))))
    \<and> (parse_control deb reader = Returns (deb', r)
        \<and> field \<notin> field_name ` set (fst (Scanner reader))
       \<longrightarrow> control_field field deb' = control_field field deb)
    \<and> (file_ar file = (pre @ (header, body) # rest, err) \<and> no_control_member pre
        \<and> list_all (\<lambda>m. hdr_Name (fst m) \<notin> set data_member_names) pre
        \<and> ((hdr_Name header = ''control.tar.gz''
              \<and> gzip_NewReader c (declared_content (header, body)) = Inr z)
           \<or> (hdr_Name header = ''control.tar.xz''
              \<and> xz_NewReader c (declared_content (header, body)) = Inr z)
           \<or> (hdr_Name header = ''control.tar.zst''
              \<and> zstd_NewReader c (declared_content (header, body)) = Inr z))
        \<and> tar_NewReader c z = (inner, io_EOF)
        \<and> list_all (\<lambda>m. \<not> control_panics (declared_content m)
                        \<and> field \<notin> field_name ` set (fst (Scanner (declared_content m))))
             [m \<leftarrow> inner. hdr_Name (fst m) = ''./control'']
        \<and> ((rest = [] \<and> err = io_EOF)
           \<or> (rest \<noteq> [] \<and> hdr_Name (fst (hd rest)) \<in> set data_member_names))
       \<longrightarrow> (\<exists>out parsed. Parse c filename = (out, Returns (Inr parsed))
              \<and> control_field field parsed
                  = control_field field (new_DEBPackage filename modtime)))
    \<and> control_field field (new_DEBPackage filename modtime)
        \<in> set [None, Some (Text []), Some (List []), Some (Number 0)]"
proof (intro conjI impI)
  let ?new = "new_DEBPackage filename modtime"
  show "\<exists>out v. Parse c filename = (out, Returns (Inr (?new\<lparr>DebVersion := v\<rparr>)))"
    if "file_ar file = (members, io_EOF) \<and> no_control_member members"
  proof -
    from that assms have "Parse c filename = Parse_members c filename ?new [] members io_EOF"
      by (simp add: Parse_single)
    with Parse_members_no_control [of members c filename ?new "[]"] that show ?thesis
      by simp
  qed
  show "\<exists>out v. Parse c filename = (out, Returns (Inr (?new\<lparr>DebVersion := v\<rparr>)))"
    if "file_ar file = (pre @ (header, body) # rest, err) \<and> no_control_member pre
        \<and> hdr_Name header \<in> set data_member_names"
  proof -
    from that assms have "Parse c filename
        = Parse_members c filename ?new [] (pre @ (header, body) # rest) err"
      by (simp add: Parse_single)
    also from that have "\<dots> = Parse_members c filename ?new [] pre io_EOF"
      by (simp add: Parse_members_stop)
    finally show ?thesis
      using Parse_members_no_control [of pre c filename ?new "[]"] that by simp
  qed
  show "control_field field deb' = control_field field deb"
    if "parse_control deb reader = Returns (deb', r)
        \<and> field \<notin> field_name ` set (fst (Scanner reader))"
    using that parse_control_keeps_field by blast
  show "control_field field ?new \<in> set [None, Some (Text []), Some (List []), Some (Number 0)]"
    by (rule control_field_new)
  show "\<exists>out parsed. Parse c filename = (out, Returns (Inr parsed))
              \<and> control_field field parsed = control_field field ?new"
    if a: "file_ar file = (pre @ (header, body) # rest, err) \<and> no_control_member pre
        \<and> list_all (\<lambda>m. hdr_Name (fst m) \<notin> set data_member_names) pre
        \<and> ((hdr_Name header = ''control.tar.gz''
              \<and> gzip_NewReader c (declared_content (header, body)) = Inr z)
           \<or> (hdr_Name header = ''control.tar.xz''
              \<and> xz_NewReader c (declared_content (header, body)) = Inr z)
           \<or> (hdr_Name header = ''control.tar.zst''
              \<and> zstd_NewReader c (declared_content (header, body)) = Inr z))
        \<and> tar_NewReader c z = (inner, io_EOF)
        \<and> list_all (\<lambda>m. \<not> control_panics (declared_content m)
                        \<and> field \<notin> field_name ` set (fst (Scanner (declared_content m))))
             [m \<leftarrow> inner. hdr_Name (fst m) = ''./control'']
        \<and> ((rest = [] \<and> err = io_EOF)
           \<or> (rest \<noteq> [] \<and> hdr_Name (fst (hd rest)) \<in> set data_member_names))"
  proof -
    from a have f: "file_ar file = (pre @ (header, body) # rest, err)"
      and nc: "no_control_member pre"
      and nd: "list_all (\<lambda>m. hdr_Name (fst m) \<notin> set data_member_names) pre"
      and codec: "(hdr_Name header = ''control.tar.gz''
              \<and> gzip_NewReader c (declared_content (header, body)) = Inr z)
           \<or> (hdr_Name header = ''control.tar.xz''
              \<and> xz_NewReader c (declared_content (header, body)) = Inr z)
           \<or> (hdr_Name header = ''control.tar.zst''
              \<and> zstd_NewReader c (declared_content (header, body)) = Inr z)"
      and tar: "tar_NewReader c z = (inner, io_EOF)"
      and texts: "list_all (\<lambda>m. \<not> control_panics (declared_content m)
                        \<and> field \<notin> field_name ` set (fst (Scanner (declared_content m))))
             [m \<leftarrow> inner. hdr_Name (fst m) = ''./control'']"
      and tail: "(rest = [] \<and> err = io_EOF)
           \<or> (rest \<noteq> [] \<and> hdr_Name (fst (hd rest)) \<in> set data_member_names)"
      by blast+
    from Parse_members_before_control [OF nc nd, of c filename ?new "[]" "(header, body) # rest" err]
    obtain out1 v where
      s1: "Parse_members c filename ?new [] (pre @ (header, body) # rest) err
           = Parse_members c filename (?new\<lparr>DebVersion := v\<rparr>) out1 ((header, body) # rest) err"
      by blast
    from control_member_optional [OF codec tar texts, of filename "?new\<lparr>DebVersion := v\<rparr>" out1 rest err]
    obtain parsed where
      s2: "Parse_members c filename (?new\<lparr>DebVersion := v\<rparr>) out1 ((header, body) # rest) err
           = Parse_members c filename parsed out1 rest err"
      and keep: "control_field field parsed = control_field field (?new\<lparr>DebVersion := v\<rparr>)"
      by blast
    have s3: "Parse_members c filename parsed out1 rest err = (out1, Returns (Inr parsed))"
    proof (cases rest)
      case Nil
      with tail show ?thesis by simp
    next
      case (Cons d later)
      obtain dh db where d: "d = (dh, db)" by (cases d)
      from tail Cons d have "hdr_Name dh \<in> set data_member_names" by simp
      then have "Parse_members c filename parsed out1 ((dh, db) # later) err
          = (out1, Returns (Inr parsed))" by (rule Parse_members_data)
      with Cons d show ?thesis by (simp only:)
    qed
    from Parse_single [OF assms f] s1 s2 s3
    have "Parse c filename = (out1, Returns (Inr parsed))" by simp
    moreover from keep have "control_field field parsed = control_field field ?new"
      by (simp add: control_field_DebVersion)
    ultimately show ?thesis by blast
  qed
qed

lemma fields_optional_example:
  "(\<exists>out v. Parse (sample_collaborators
          ([(\<lparr>hdr_Name = ''debian-binary'', hdr_Size = 4\<rparr>, (''2.0'' @ [LF], io_EOF)),
            (\<lparr>hdr_Name = ''data.tar.gz'', hdr_Size = 7\<rparr>, (''payload'', io_EOF))], io_EOF)
          ([], io_EOF)) ''pkg.deb''
        = (out, Returns (Inr (new_DEBPackage ''pkg.deb'' 1700000000\<lparr>DebVersion := v\<rparr>))))
   \<and> (\<exists>out parsed. Parse (sample_collaborators
          ([sample_member ''debian-binary'' (''2.0'' @ [LF]),
            sample_member ''control.tar.gz'' ''gz'',
            sample_member ''data.tar.gz'' ''payload''], io_EOF)
          ([sample_member ''./control''
              (''Package: tool'' @ [LF] @ ''Version: 1.0'' @ [LF] @ [LF])], io_EOF)) ''pkg.deb''
        = (out, Returns (Inr parsed))
      \<and> control_field ''Depends'' parsed = Some (List []))"
proof -
  let ?v = "(\<lparr>hdr_Name = ''debian-binary'', hdr_Size = 4\<rparr>, (''2.0'' @ [LF], io_EOF))"
  let ?dh = "\<lparr>hdr_Name = ''data.tar.gz'', hdr_Size = 7\<rparr>"
  let ?outer1 = "([?v, (?dh, (''payload'', io_EOF))], io_EOF)"
  let ?c1 = "sample_collaborators ?outer1 ([], io_EOF)"
  let ?file1 = "\<lparr>file_Stat = Inr 1700000000, file_ar = ?outer1\<rparr>"
  let ?ch = "\<lparr>hdr_Name = ''control.tar.gz'', hdr_Size = 2\<rparr>"
  let ?text = "''Package: tool'' @ [LF] @ ''Version: 1.0'' @ [LF] @ [LF]"
  let ?outer2 = "([sample_member ''debian-binary'' (''2.0'' @ [LF]),
            sample_member ''control.tar.gz'' ''gz'',
            sample_member ''data.tar.gz'' ''payload''], io_EOF)"
  let ?inner2 = "([sample_member ''./control'' ?text], io_EOF)"
  let ?c2 = "sample_collaborators ?outer2 ?inner2"
  let ?file2 = "\<lparr>file_Stat = Inr 1700000000, file_ar = ?outer2\<rparr>"
  have a1: "no_control_member [?v]" by code_simp
  have a2: "''data.tar.gz'' \<in> set data_member_names" by (simp add: data_member_names_def)
  have o1: "os_Open ?c1 ''pkg.deb'' = Inr ?file1" by (simp add: sample_collaborators_def)
  have s1: "file_Stat ?file1 = Inr 1700000000" by simp
  have f1: "file_ar ?file1 = ([?v] @ (?dh, (''payload'', io_EOF)) # [], io_EOF)
      \<and> no_control_member [?v] \<and> hdr_Name ?dh \<in> set data_member_names"
    using a1 a2 by simp
  from fields_optional [OF o1 s1, of _ "[?v]" ?dh "(''payload'', io_EOF)" "[]" io_EOF] f1
  have r1: "\<exists>out v. Parse ?c1 ''pkg.deb''
        = (out, Returns (Inr (new_DEBPackage ''pkg.deb'' 1700000000\<lparr>DebVersion := v\<rparr>)))"
    by blast
  have o2: "os_Open ?c2 ''pkg.deb'' = Inr ?file2" by (simp add: sample_collaborators_def)
  have s2: "file_Stat ?file2 = Inr 1700000000" by simp
  have g1: "file_ar ?file2 = ([sample_member ''debian-binary'' (''2.0'' @ [LF])]
        @ (?ch, (''gz'', io_EOF)) # [sample_member ''data.tar.gz'' ''payload''], io_EOF)"
    by (simp add: sample_member_def)
  have g2: "no_control_member [sample_member ''debian-binary'' (''2.0'' @ [LF])]" by code_simp
  have g3: "list_all (\<lambda>m. hdr_Name (fst m) \<notin> set data_member_names)
      [sample_member ''debian-binary'' (''2.0'' @ [LF])]"
    by (simp add: sample_member_def data_member_names_def)
  have g4: "hdr_Name ?ch = ''control.tar.gz''
      \<and> gzip_NewReader ?c2 (declared_content (?ch, (''gz'', io_EOF))) = Inr (''gz'', io_EOF)"
    by (simp add: sample_collaborators_def declared_content_def)
  have g5: "tar_NewReader ?c2 (''gz'', io_EOF) = ([sample_member ''./control'' ?text], io_EOF)"
    by (simp add: sample_collaborators_def)
  have g6: "\<not> control_panics (declared_content (sample_member ''./control'' ?text))" by code_simp
  have g7: "''Depends'' \<notin> field_name `
      set (fst (Scanner (declared_content (sample_member ''./control'' ?text))))" by code_simp
  from g6 g7 have g8: "list_all (\<lambda>m. \<not> control_panics (declared_content m)
                        \<and> ''Depends'' \<notin> field_name ` set (fst (Scanner (declared_content m))))
             [m \<leftarrow> [sample_member ''./control'' ?text]. hdr_Name (fst m) = ''./control'']"
    by simp
  have g9: "[sample_member ''data.tar.gz'' ''payload''] \<noteq> []
      \<and> hdr_Name (fst (hd [sample_member ''data.tar.gz'' ''payload''])) \<in> set data_member_names"
    by (simp add: sample_member_def data_member_names_def)
  have z: "control_field ''Depends'' (new_DEBPackage ''pkg.deb'' 1700000000) = Some (List [])"
    by (simp add: control_field_def new_DEBPackage_def)
  from fields_optional [OF o2 s2, where field = "''Depends''"
      and pre = "[sample_member ''debian-binary'' (''2.0'' @ [LF])]" and header = ?ch
      and body = "(''gz'', io_EOF)" and rest = "[sample_member ''data.tar.gz'' ''payload'']"
      and err = io_EOF and z = "(''gz'', io_EOF)"
      and inner = "[sample_member ''./control'' ?text]"]
    g1 g2 g3 g4 g5 g8 g9
  have "\<exists>out parsed. Parse ?c2 ''pkg.deb'' = (out, Returns (Inr parsed))
      \<and> control_field ''Depends'' parsed
          = control_field ''Depends'' (new_DEBPackage ''pkg.deb'' 1700000000)"
    by blast
  then have r2: "\<exists>out parsed. Parse ?c2 ''pkg.deb'' = (out, Returns (Inr parsed))
      \<and> control_field ''Depends'' parsed = Some (List [])"
    by (simp only: z)
  from r1 r2 show ?thesis by (intro conjI)
qed

section \<open>The properties of the specification\<close>

text \<open>
  C1. A control text whose \<open>Installed-Size\<close> value is a base-10 integer has that integer
  stored; one whose value is not, such as \<open>Installed-Size: abc\<close>, must make the whole
  parse fail with a wrapped error and no record. The code does the first part
  (\<open>control_line_InstalledSize\<close>). For the second, \<open>parse_control\<close> returns the wrapped
  error, but \<open>parse_control_tar\<close> does not look at what it returns: for an archive whose
  control text is \<open>Package: tool\<close>, \<open>Installed-Size: abc\<close>, \<open>Version: 1.0\<close>, \<open>Parse\<close>
  returns a record and no error. The record holds the field before the malformed line
  and lacks the one after it.
\<close>

theorem C1_installed_size_error_lost:
  "parse_control (new_DEBPackage ''pkg.deb'' 1700000000)
     (''Package: tool'' @ [LF] @ ''Installed-Size: abc'' @ [LF] @ ''Version: 1.0'' @ [LF], io_EOF)
   = Returns (new_DEBPackage ''pkg.deb'' 1700000000\<lparr>Name := ''tool''\<rparr>,
        Some (Wrapped (strconv_NumError ''ParseInt'' ''abc'' ErrSyntax)
                ''Error parsing Installed-Size''))
   \<and> Parse (sample_collaborators
         ([sample_member ''debian-binary'' (''2.0'' @ [LF]),
           sample_member ''control.tar.gz'' ''gz'',
           sample_member ''data.tar.gz'' ''payload''], io_EOF)
         ([sample_member ''./control''
             (''Package: tool'' @ [LF] @ ''Installed-Size: abc'' @ [LF] @ ''Version: 1.0'' @ [LF])],
          io_EOF))
       ''pkg.deb''
     = ([], Returns (Inr (new_DEBPackage ''pkg.deb'' 1700000000
                            \<lparr>DebVersion := ''2.0'', Name := ''tool''\<rparr>)))"
  by code_simp

text \<open>
  C2. An empty line met in description continuation mode must not crash the parser: it
  should end the continuation and count as a line without a field. The code slices the
  first byte off the line before it looks at its length, which panics on an empty line
  (\<open>control_line_empty_panics\<close>): the control text \<open>Description: tool\<close> followed by an
  empty line takes \<open>parse_control\<close>, and with it \<open>Parse\<close>, down.
\<close>

theorem C2_empty_line_panics:
  "parse_control (new_DEBPackage ''pkg.deb'' 1700000000)
     (''Description: tool'' @ [LF] @ [LF], io_EOF)
   = Panics ''runtime error: slice bounds out of range [:1] with length 0''
   \<and> Parse (sample_collaborators
         ([sample_member ''debian-binary'' (''2.0'' @ [LF]),
           sample_member ''control.tar.gz'' ''gz'',
           sample_member ''data.tar.gz'' ''payload''], io_EOF)
         ([sample_member ''./control'' (''Description: tool'' @ [LF] @ [LF])], io_EOF))
       ''pkg.deb''
     = ([], Panics ''runtime error: slice bounds out of range [:1] with length 0'')"
  by code_simp

text \<open>
  C3, as stated: the extractor scans the members until one named \<open>./control\<close> is found
  and hands its content to the parser. The loop of \<open>parse_control_tar\<close> does not stop
  there, so what follows the first \<open>./control\<close> member changes the result. With a second
  member named \<open>./control\<close> both are parsed and the second one's package name is the
  one returned, and with a read error of the member reader after the \<open>./control\<close>
  member the call fails; were the scan over at the first \<open>./control\<close>, all three
  archives would give the first result.
\<close>

theorem C3_scan_goes_on_after_control:
  "parse_control_tar
     (sample_collaborators ([], io_EOF)
        ([sample_member ''./control'' (''Package: first'' @ [LF])], io_EOF))
     (new_DEBPackage ''pkg.deb'' 1700000000) (''tar'', io_EOF)
   = Returns (new_DEBPackage ''pkg.deb'' 1700000000\<lparr>Name := ''first''\<rparr>, None)
   \<and> parse_control_tar
     (sample_collaborators ([], io_EOF)
        ([sample_member ''./control'' (''Package: first'' @ [LF]),
          sample_member ''./control'' (''Package: second'' @ [LF])], io_EOF))
     (new_DEBPackage ''pkg.deb'' 1700000000) (''tar'', io_EOF)
   = Returns (new_DEBPackage ''pkg.deb'' 1700000000\<lparr>Name := ''second''\<rparr>, None)
   \<and> parse_control_tar
     (sample_collaborators ([], io_EOF)
        ([sample_member ''./control'' (''Package: first'' @ [LF])], External ''unexpected EOF''))
     (new_DEBPackage ''pkg.deb'' 1700000000) (''tar'', io_EOF)
   = Returns (new_DEBPackage ''pkg.deb'' 1700000000\<lparr>Name := ''first''\<rparr>,
        Some (Wrapped (External ''unexpected EOF'') ''Error reading control.tar''))"
  by code_simp

text \<open>
  C3, amended. The extractor scans the members of the tape archive to the end of the
  stream, not only up to the first member named \<open>./control\<close>. Members with other names
  are passed over, so without a member named \<open>./control\<close> the end of the stream is a
  success and the record is as it was. The content of a member named \<open>./control\<close>, cut
  to its declared length, goes to the control-text parser, and when the parser returns
  without an error the scan goes on over the members that follow, with the record the
  parser left. As long as the parser does not panic on a control text, a read error of
  the member reader, wherever it comes, is returned wrapped. What the extractor does
  when the parser returns an error or panics is not part of the statement.
\<close>

theorem C3_scan_whole_archive:
  assumes "tar_NewReader c reader = (members, err)"
  shows
   "parse_control_tar c deb reader = parse_control_tar_members deb members err
    \<and> (list_all (\<lambda>m. hdr_Name (fst m) \<noteq> ''./control'') ms
       \<longrightarrow> parse_control_tar_members deb ms io_EOF = Returns (deb, None))
    \<and> (list_all (\<lambda>m. hdr_Name (fst m) \<noteq> ''./control'') pre
        \<and> hdr_Name header = ''./control''
        \<and> parse_control deb (declared_content (header, body)) = Returns (deb', None)
       \<longrightarrow> parse_control_tar_members deb (pre @ (header, body) # rest) fin
           = parse_control_tar_members deb' rest fin)
    \<and> (fin \<noteq> io_EOF
        \<and> list_all (\<lambda>m. \<not> control_panics (declared_content m))
             [m \<leftarrow> ms. hdr_Name (fst m) = ''./control'']
       \<longrightarrow> (\<exists>left. parse_control_tar_members deb ms fin
                     = Returns (left, Some (Wrapped fin ''Error reading control.tar''))))"
proof (intro conjI impI)
  show "parse_control_tar c deb reader = parse_control_tar_members deb members err"
    using assms by (simp add: parse_control_tar_def)
  show "parse_control_tar_members deb ms io_EOF = Returns (deb, None)"
    if "list_all (\<lambda>m. hdr_Name (fst m) \<noteq> ''./control'') ms"
  proof -
    from that have "parse_control_tar_members deb (ms @ []) io_EOF
        = parse_control_tar_members deb [] io_EOF"
      by (rule parse_control_tar_members_skip)
    then show ?thesis by simp
  qed
  show "parse_control_tar_members deb (pre @ (header, body) # rest) fin
           = parse_control_tar_members deb' rest fin"
    if a: "list_all (\<lambda>m. hdr_Name (fst m) \<noteq> ''./control'') pre
        \<and> hdr_Name header = ''./control''
        \<and> parse_control deb (declared_content (header, body)) = Returns (deb', None)"
  proof -
    from a have "parse_control_tar_members deb (pre @ (header, body) # rest) fin
        = parse_control_tar_members deb ((header, body) # rest) fin"
      by (intro parse_control_tar_members_skip) simp
    also from a have "\<dots> = parse_control_tar_members deb' rest fin"
      by (simp add: io_LimitReader_declared)
    finally show ?thesis .
  qed
  show "\<exists>left. parse_control_tar_members deb ms fin
            = Returns (left, Some (Wrapped fin ''Error reading control.tar''))"
    if "fin \<noteq> io_EOF
        \<and> list_all (\<lambda>m. \<not> control_panics (declared_content m))
             [m \<leftarrow> ms. hdr_Name (fst m) = ''./control'']"
    using that parse_control_tar_members_fatal [of fin ms deb] by simp
qed

theorem C3_scan_whole_archive_witness:
  "tar_NewReader (sample_collaborators ([], io_EOF)
        ([sample_member ''./md5sums'' ''d41d8'',
          (\<lparr>hdr_Name = ''./control'', hdr_Size = 15\<rparr>,
           (''Package: first'' @ [LF] @ ''Version: 9'' @ [LF], io_EOF)),
          sample_member ''./postinst'' ''exit 0''], External ''unexpected EOF'')) (''tar'', io_EOF)
     = ([sample_member ''./md5sums'' ''d41d8'']
          @ (\<lparr>hdr_Name = ''./control'', hdr_Size = 15\<rparr>,
             (''Package: first'' @ [LF] @ ''Version: 9'' @ [LF], io_EOF))
          # [sample_member ''./postinst'' ''exit 0''], External ''unexpected EOF'')
   \<and> list_all (\<lambda>m. hdr_Name (fst m) \<noteq> ''./control'') [sample_member ''./md5sums'' ''d41d8'']
   \<and> declared_content (\<lparr>hdr_Name = ''./control'', hdr_Size = 15\<rparr>,
          (''Package: first'' @ [LF] @ ''Version: 9'' @ [LF], io_EOF))
       = (''Package: first'' @ [LF], io_EOF)
   \<and> parse_control (new_DEBPackage ''pkg.deb'' 1700000000)
        (declared_content (\<lparr>hdr_Name = ''./control'', hdr_Size = 15\<rparr>,
          (''Package: first'' @ [LF] @ ''Version: 9'' @ [LF], io_EOF)))
       = Returns (new_DEBPackage ''pkg.deb'' 1700000000\<lparr>Name := ''first''\<rparr>, None)
   \<and> parse_control_tar (sample_collaborators ([], io_EOF)
        ([sample_member ''./md5sums'' ''d41d8'',
          (\<lparr>hdr_Name = ''./control'', hdr_Size = 15\<rparr>,
           (''Package: first'' @ [LF] @ ''Version: 9'' @ [LF], io_EOF)),
          sample_member ''./postinst'' ''exit 0''], External ''unexpected EOF''))
        (new_DEBPackage ''pkg.deb'' 1700000000) (''tar'', io_EOF)
       = parse_control_tar_members (new_DEBPackage ''pkg.deb'' 1700000000\<lparr>Name := ''first''\<rparr>)
           [sample_member ''./postinst'' ''exit 0''] (External ''unexpected EOF'')
   \<and> \<not> control_panics (declared_content (\<lparr>hdr_Name = ''./control'', hdr_Size = 23\<rparr>,
          (''Package: a'' @ [LF] @ [LF] @ ''Version: 1'' @ [LF], io_EOF)))
   \<and> (\<exists>left. parse_control_tar_members (new_DEBPackage ''pkg.deb'' 1700000000)
          [(\<lparr>hdr_Name = ''./control'', hdr_Size = 23\<rparr>,
            (''Package: a'' @ [LF] @ [LF] @ ''Version: 1'' @ [LF], io_EOF))]
          (External ''unexpected EOF'')
       = Returns (left, Some (Wrapped (External ''unexpected EOF'') ''Error reading control.tar'')))
   \<and> parse_control_tar_members (new_DEBPackage ''pkg.deb'' 1700000000)
        [sample_member ''./md5sums'' ''d41d8''] io_EOF
       = Returns (new_DEBPackage ''pkg.deb'' 1700000000, None)"
proof -
  let ?pre = "[sample_member ''./md5sums'' ''d41d8'']"
  let ?h = "\<lparr>hdr_Name = ''./control'', hdr_Size = 15\<rparr>"
  let ?b = "(''Package: first'' @ [LF] @ ''Version: 9'' @ [LF], io_EOF)"
  let ?rest = "[sample_member ''./postinst'' ''exit 0'']"
  let ?err = "External ''unexpected EOF''"
  let ?members = "?pre @ (?h, ?b) # ?rest"
  let ?c = "sample_collaborators ([], io_EOF)
        ([sample_member ''./md5sums'' ''d41d8'', (?h, ?b),
          sample_member ''./postinst'' ''exit 0''], External ''unexpected EOF'')"
  let ?new = "new_DEBPackage ''pkg.deb'' 1700000000"
  let ?blank = "(\<lparr>hdr_Name = ''./control'', hdr_Size = 23\<rparr>,
          (''Package: a'' @ [LF] @ [LF] @ ''Version: 1'' @ [LF], io_EOF))"
  have t: "tar_NewReader ?c (''tar'', io_EOF) = (?members, ?err)"
    by (simp add: sample_collaborators_def)
  have p: "list_all (\<lambda>m. hdr_Name (fst m) \<noteq> ''./control'') ?pre"
    by (simp add: sample_member_def)
  have n: "hdr_Name ?h = ''./control''" by simp
  have dc: "declared_content (?h, ?b) = (''Package: first'' @ [LF], io_EOF)" by code_simp
  have pc: "parse_control ?new (declared_content (?h, ?b))
      = Returns (?new\<lparr>Name := ''first''\<rparr>, None)" by code_simp
  have e: "?err \<noteq> io_EOF" by simp
  have np: "\<not> control_panics (declared_content ?blank)" by code_simp
  then have nps: "list_all (\<lambda>m. \<not> control_panics (declared_content m))
             [m \<leftarrow> [?blank]. hdr_Name (fst m) = ''./control'']" by simp
  note inst = C3_scan_whole_archive [OF t, of ?new ?pre ?pre ?h ?b "?new\<lparr>Name := ''first''\<rparr>"
      ?rest ?err]
  from inst have r0: "parse_control_tar ?c ?new (''tar'', io_EOF)
      = parse_control_tar_members ?new ?members ?err" by blast
  from inst p n pc have r2: "parse_control_tar_members ?new ?members ?err
      = parse_control_tar_members (?new\<lparr>Name := ''first''\<rparr>) ?rest ?err" by blast
  from r0 r2 have r02: "parse_control_tar ?c ?new (''tar'', io_EOF)
      = parse_control_tar_members (?new\<lparr>Name := ''first''\<rparr>) ?rest ?err" by simp
  from inst p have r1: "parse_control_tar_members ?new ?pre io_EOF = Returns (?new, None)"
    by blast
  from C3_scan_whole_archive [OF t, of ?new "[?blank]" _ _ _ _ _ ?err] e nps
  have r3: "\<exists>left. parse_control_tar_members ?new [?blank] ?err
      = Returns (left, Some (Wrapped ?err ''Error reading control.tar''))" by blast
  from t p dc pc r02 np r3 r1 show ?thesis by (intro conjI)
qed

text \<open>
  C4. Take a member named \<open>debian-binary\<close> whose content, cut to its declared length,
  holds no sentinel byte. When the content ends with the end of the stream, which is
  the expected end of the token, the version string stored is the content with the
  surrounding white space trimmed, and the walk goes on with the next member. For a
  content of ASCII characters the trimmed content is the content without its leading
  and its trailing characters among tab, line feed, vertical tab, form feed, carriage
  return and space. Whenever \<open>Parse\<close> returns a record for an archive that holds the
  member, before any data member and with no later member of that name, the record has
  this version string; \<open>Parse\<close> does return the record, with no error, for the archive
  of this one member and for the layout of this member, a control archive that the
  extractor accepts and a data member. When reading the content ends in another error,
  that error comes back wrapped, the walk stops and \<open>Parse\<close> returns no record.
\<close>

theorem C4_version_token:
  assumes "hdr_Name header = ''debian-binary''"
    and "declared_content (header, body) = (content, fin)"
    and "CHR 0x00 \<notin> set content"
  shows "(list_all isASCII content \<longrightarrow> TrimSpace content = trimmed content)
       \<and> (fin = io_EOF \<longrightarrow>
           parse_debian_binary deb (io_LimitReader body (hdr_Size header))
             = (deb\<lparr>DebVersion := TrimSpace content\<rparr>, None)
         \<and> Parse_members c filename deb out ((header, body) # rest) err
             = Parse_members c filename (deb\<lparr>DebVersion := TrimSpace content\<rparr>) out rest err
         \<and> (os_Open c filename = Inr file \<and> file_Stat file = Inr modtime
             \<and> file_ar file = (pre @ (header, body) # rest, err)
             \<and> list_all (\<lambda>m. hdr_Name (fst m) \<notin> set data_member_names) pre
             \<and> list_all (\<lambda>m. hdr_Name (fst m) \<noteq> ''debian-binary'') rest
             \<and> Parse c filename = (out', Returns (Inr deb'))
             \<longrightarrow> DebVersion deb' = TrimSpace content)
         \<and> (os_Open c filename = Inr file \<and> file_Stat file = Inr modtime
             \<and> file_ar file = ((header, body) # (ch, cb) # (dh, db) # later, err)
             \<and> hdr_Name ch = ''control.tar.gz''
             \<and> parse_control_tar_gz c
                  (new_DEBPackage filename modtime\<lparr>DebVersion := TrimSpace content\<rparr>)
                  (declared_content (ch, cb)) = Returns (deb', None)
             \<and> hdr_Name dh \<in> set data_member_names
             \<longrightarrow> Parse c filename = ([], Returns (Inr deb'))
                 \<and> DebVersion deb' = TrimSpace content)
         \<and> (os_Open c filename = Inr file \<and> file_Stat file = Inr modtime
             \<and> file_ar file = ([(header, body)], io_EOF)
             \<longrightarrow> Parse c filename
                 = ([], Returns (Inr (new_DEBPackage filename modtime\<lparr>DebVersion := TrimSpace content\<rparr>)))))
       \<and> (fin \<noteq> io_EOF \<longrightarrow>
           parse_debian_binary deb (io_LimitReader body (hdr_Size header))
             = (deb, Some (Wrapped fin ''Cannot read DEB version string''))
         \<and> Parse_members c filename deb out ((header, body) # rest) err
             = (out, Returns (Inl (Wrapped fin ''Cannot read DEB version string'')))
         \<and> (os_Open c filename = Inr file \<and> file_Stat file = Inr modtime
             \<and> file_ar file = ((header, body) # rest, err)
             \<longrightarrow> Parse c filename
                 = ([], Returns (Inl (Wrapped fin ''Cannot read DEB version string'')))))"
proof -
  have lim: "io_LimitReader body (hdr_Size header) = (content, fin)"
    using assms(2) by (simp add: io_LimitReader_declared)
  have ascii: "list_all isASCII content \<longrightarrow> TrimSpace content = trimmed content"
    by (simp add: TrimSpace_ASCII)
  have good: "fin = io_EOF \<longrightarrow>
           parse_debian_binary deb (io_LimitReader body (hdr_Size header))
             = (deb\<lparr>DebVersion := TrimSpace content\<rparr>, None)
         \<and> Parse_members c filename deb out ((header, body) # rest) err
             = Parse_members c filename (deb\<lparr>DebVersion := TrimSpace content\<rparr>) out rest err
         \<and> (os_Open c filename = Inr file \<and> file_Stat file = Inr modtime
             \<and> file_ar file = (pre @ (header, body) # rest, err)
             \<and> list_all (\<lambda>m. hdr_Name (fst m) \<notin> set data_member_names) pre
             \<and> list_all (\<lambda>m. hdr_Name (fst m) \<noteq> ''debian-binary'') rest
             \<and> Parse c filename = (out', Returns (Inr deb'))
             \<longrightarrow> DebVersion deb' = TrimSpace content)
         \<and> (os_Open c filename = Inr file \<and> file_Stat file = Inr modtime
             \<and> file_ar file = ((header, body) # (ch, cb) # (dh, db) # later, err)
             \<and> hdr_Name ch = ''control.tar.gz''
             \<and> parse_control_tar_gz c
                  (new_DEBPackage filename modtime\<lparr>DebVersion := TrimSpace content\<rparr>)
                  (declared_content (ch, cb)) = Returns (deb', None)
             \<and> hdr_Name dh \<in> set data_member_names
             \<longrightarrow> Parse c filename = ([], Returns (Inr deb'))
                 \<and> DebVersion deb' = TrimSpace content)
         \<and> (os_Open c filename = Inr file \<and> file_Stat file = Inr modtime
             \<and> file_ar file = ([(header, body)], io_EOF)
             \<longrightarrow> Parse c filename
                 = ([], Returns (Inr (new_DEBPackage filename modtime\<lparr>DebVersion := TrimSpace content\<rparr>))))"
  proof (intro impI)
    assume eof: "fin = io_EOF"
    have ok: "parse_debian_binary deb (io_LimitReader body (hdr_Size header))
        = (deb\<lparr>DebVersion := TrimSpace content\<rparr>, None)" for deb
      using assms(3) eof lim by (simp add: parse_debian_binary_EOF)
    have step: "Parse_members c filename deb out ((header, body) # rest) err
        = Parse_members c filename (deb\<lparr>DebVersion := TrimSpace content\<rparr>) out rest err"
      for deb out rest err
      by (simp only: Parse_members_debian_binary [OF assms(1)] ok prod.case option.case)
    have dc: "declared_content (header, body) = (content, io_EOF)"
      using assms(2) eof by simp
    have anywhere: "DebVersion deb' = TrimSpace content"
      if a: "os_Open c filename = Inr file \<and> file_Stat file = Inr modtime
             \<and> file_ar file = (pre @ (header, body) # rest, err)
             \<and> list_all (\<lambda>m. hdr_Name (fst m) \<notin> set data_member_names) pre
             \<and> list_all (\<lambda>m. hdr_Name (fst m) \<noteq> ''debian-binary'') rest
             \<and> Parse c filename = (out', Returns (Inr deb'))"
    proof -
      from a have o: "os_Open c filename = Inr file" and s: "file_Stat file = Inr modtime"
        and f: "file_ar file = (pre @ (header, body) # rest, err)"
        and p: "Parse c filename = (out', Returns (Inr deb'))"
        by blast+
      from p have "Parse_members c filename (new_DEBPackage filename modtime) []
          (pre @ (header, body) # rest) err = (out', Returns (Inr deb'))"
        by (simp only: Parse_single [OF o s f])
      with assms(1) dc assms(3) a show ?thesis
        by (intro Parse_members_version [where pre = pre and rest = rest]) simp_all
    qed
    have layout: "Parse c filename = ([], Returns (Inr deb')) \<and> DebVersion deb' = TrimSpace content"
      if a: "os_Open c filename = Inr file \<and> file_Stat file = Inr modtime
             \<and> file_ar file = ((header, body) # (ch, cb) # (dh, db) # later, err)
             \<and> hdr_Name ch = ''control.tar.gz''
             \<and> parse_control_tar_gz c
                  (new_DEBPackage filename modtime\<lparr>DebVersion := TrimSpace content\<rparr>)
                  (declared_content (ch, cb)) = Returns (deb', None)
             \<and> hdr_Name dh \<in> set data_member_names"
    proof -
      let ?v = "new_DEBPackage filename modtime\<lparr>DebVersion := TrimSpace content\<rparr>"
      from a have "Parse c filename = Parse_members c filename (new_DEBPackage filename modtime) []
          ((header, body) # (ch, cb) # (dh, db) # later) err"
        by (simp add: Parse_single)
      also have "\<dots> = Parse_members c filename ?v [] ((ch, cb) # (dh, db) # later) err"
        by (rule step)
      also from a have "\<dots> = Parse_members c filename deb' [] ((dh, db) # later) err"
        by (intro Parse_members_control_gz) simp_all
      also from a have "\<dots> = ([], Returns (Inr deb'))"
        by (intro Parse_members_data) simp
      finally have p: "Parse c filename = ([], Returns (Inr deb'))" .
      from a have "parse_control_tar_gz c ?v (declared_content (ch, cb)) = Returns (deb', None)"
        by blast
      then have "DebVersion deb' = DebVersion ?v"
        by (rule parse_control_tar_codecs_DebVersion(1))
      with p show ?thesis by simp
    qed
    have single: "Parse c filename
        = ([], Returns (Inr (new_DEBPackage filename modtime\<lparr>DebVersion := TrimSpace content\<rparr>)))"
      if a: "os_Open c filename = Inr file \<and> file_Stat file = Inr modtime
             \<and> file_ar file = ([(header, body)], io_EOF)"
    proof -
      from a have "Parse c filename
          = Parse_members c filename (new_DEBPackage filename modtime) [] [(header, body)] io_EOF"
        by (simp add: Parse_single)
      also have "\<dots> = Parse_members c filename
          (new_DEBPackage filename modtime\<lparr>DebVersion := TrimSpace content\<rparr>) [] [] io_EOF"
        by (rule step)
      finally show ?thesis by simp
    qed
    from ok step anywhere layout single
    show "parse_debian_binary deb (io_LimitReader body (hdr_Size header))
             = (deb\<lparr>DebVersion := TrimSpace content\<rparr>, None)
         \<and> Parse_members c filename deb out ((header, body) # rest) err
             = Parse_members c filename (deb\<lparr>DebVersion := TrimSpace content\<rparr>) out rest err
         \<and> (os_Open c filename = Inr file \<and> file_Stat file = Inr modtime
             \<and> file_ar file = (pre @ (header, body) # rest, err)
             \<and> list_all (\<lambda>m. hdr_Name (fst m) \<notin> set data_member_names) pre
             \<and> list_all (\<lambda>m. hdr_Name (fst m) \<noteq> ''debian-binary'') rest
             \<and> Parse c filename = (out', Returns (Inr deb'))
             \<longrightarrow> DebVersion deb' = TrimSpace content)
         \<and> (os_Open c filename = Inr file \<and> file_Stat file = Inr modtime
             \<and> file_ar file = ((header, body) # (ch, cb) # (dh, db) # later, err)
             \<and> hdr_Name ch = ''control.tar.gz''
             \<and> parse_control_tar_gz c
                  (new_DEBPackage filename modtime\<lparr>DebVersion := TrimSpace content\<rparr>)
                  (declared_content (ch, cb)) = Returns (deb', None)
             \<and> hdr_Name dh \<in> set data_member_names
             \<longrightarrow> Parse c filename = ([], Returns (Inr deb'))
                 \<and> DebVersion deb' = TrimSpace content)
         \<and> (os_Open c filename = Inr file \<and> file_Stat file = Inr modtime
             \<and> file_ar file = ([(header, body)], io_EOF)
             \<longrightarrow> Parse c filename
                 = ([], Returns (Inr (new_DEBPackage filename modtime\<lparr>DebVersion := TrimSpace content\<rparr>))))"
      by blast
  qed
  have bad: "fin \<noteq> io_EOF \<longrightarrow>
           parse_debian_binary deb (io_LimitReader body (hdr_Size header))
             = (deb, Some (Wrapped fin ''Cannot read DEB version string''))
         \<and> Parse_members c filename deb out ((header, body) # rest) err
             = (out, Returns (Inl (Wrapped fin ''Cannot read DEB version string'')))
         \<and> (os_Open c filename = Inr file \<and> file_Stat file = Inr modtime
             \<and> file_ar file = ((header, body) # rest, err)
             \<longrightarrow> Parse c filename
                 = ([], Returns (Inl (Wrapped fin ''Cannot read DEB version string''))))"
  proof (intro impI)
    assume fail: "fin \<noteq> io_EOF"
    have no: "parse_debian_binary deb (io_LimitReader body (hdr_Size header))
        = (deb, Some (Wrapped fin ''Cannot read DEB version string''))" for deb
      using assms(3) fail lim by (simp add: parse_debian_binary_failure)
    have stop: "Parse_members c filename deb out ((header, body) # rest) err
        = (out, Returns (Inl (Wrapped fin ''Cannot read DEB version string'')))" for deb out
      by (simp only: Parse_members_debian_binary [OF assms(1)] no prod.case option.case)
    have top: "Parse c filename = ([], Returns (Inl (Wrapped fin ''Cannot read DEB version string'')))"
      if a: "os_Open c filename = Inr file \<and> file_Stat file = Inr modtime
             \<and> file_ar file = ((header, body) # rest, err)"
    proof -
      from a have "Parse c filename = Parse_members c filename (new_DEBPackage filename modtime) []
          ((header, body) # rest) err"
        by (simp add: Parse_single)
      then show ?thesis by (simp only: stop)
    qed
    from no stop top
    show "parse_debian_binary deb (io_LimitReader body (hdr_Size header))
             = (deb, Some (Wrapped fin ''Cannot read DEB version string''))
         \<and> Parse_members c filename deb out ((header, body) # rest) err
             = (out, Returns (Inl (Wrapped fin ''Cannot read DEB version string'')))
         \<and> (os_Open c filename = Inr file \<and> file_Stat file = Inr modtime
             \<and> file_ar file = ((header, body) # rest, err)
             \<longrightarrow> Parse c filename
                 = ([], Returns (Inl (Wrapped fin ''Cannot read DEB version string''))))"
      by blast
  qed
  from ascii good bad show ?thesis by (intro conjI)
qed

theorem C4_version_token_witness:
  "declared_content (\<lparr>hdr_Name = ''debian-binary'', hdr_Size = 6\<rparr>,
       ([CHR 0x20, CHR 0x09] @ ''2.0'' @ [LF], io_EOF))
     = ([CHR 0x20, CHR 0x09] @ ''2.0'' @ [LF], io_EOF)
   \<and> CHR 0x00 \<notin> set ([CHR 0x20, CHR 0x09] @ ''2.0'' @ [LF])
   \<and> list_all isASCII ([CHR 0x20, CHR 0x09] @ ''2.0'' @ [LF])
   \<and> trimmed ([CHR 0x20, CHR 0x09] @ ''2.0'' @ [LF]) = ''2.0''
   \<and> TrimSpace ([CHR 0x20, CHR 0x09] @ ''2.0'' @ [LF]) = ''2.0''
   \<and> Parse (sample_collaborators
          ([(\<lparr>hdr_Name = ''debian-binary'', hdr_Size = 6\<rparr>,
             ([CHR 0x20, CHR 0x09] @ ''2.0'' @ [LF], io_EOF)),
            sample_member ''control.tar.gz'' ''gz'',
            sample_member ''data.tar.gz'' ''data''], io_EOF)
          ([sample_member ''./control'' (''Package: tool'' @ [LF] @ ''Version: 1.0'' @ [LF])],
           io_EOF)) ''pkg.deb''
       = ([], Returns (Inr (new_DEBPackage ''pkg.deb'' 1700000000
                             \<lparr>DebVersion := ''2.0'', Name := ''tool'', Version := ''1.0''\<rparr>)))
   \<and> Parse (sample_collaborators
          ([sample_member ''_gpgorigin'' ''sig'',
            (\<lparr>hdr_Name = ''debian-binary'', hdr_Size = 6\<rparr>,
             ([CHR 0x20, CHR 0x09] @ ''2.0'' @ [LF], io_EOF)),
            sample_member ''control.tar.xz'' ''xz''], io_EOF)
          ([sample_member ''./control'' (''Package: tool'' @ [LF])], io_EOF)) ''pkg.deb''
       = ([''_gpgorigin''],
          Returns (Inr (new_DEBPackage ''pkg.deb'' 1700000000
                         \<lparr>DebVersion := ''2.0'', Name := ''tool''\<rparr>)))
   \<and> DebVersion (new_DEBPackage ''pkg.deb'' 1700000000
                    \<lparr>DebVersion := ''2.0'', Name := ''tool''\<rparr>)
       = TrimSpace ([CHR 0x20, CHR 0x09] @ ''2.0'' @ [LF])
   \<and> declared_content (\<lparr>hdr_Name = ''debian-binary'', hdr_Size = 6\<rparr>,
       (''2.'', External ''unexpected EOF''))
     = (''2.'', External ''unexpected EOF'')
   \<and> Parse (sample_collaborators
          ([(\<lparr>hdr_Name = ''debian-binary'', hdr_Size = 6\<rparr>,
             (''2.'', External ''unexpected EOF'')),
            sample_member ''control.tar.gz'' ''gz'',
            sample_member ''data.tar.gz'' ''data''], io_EOF)
          ([sample_member ''./control'' (''Package: tool'' @ [LF] @ ''Version: 1.0'' @ [LF])],
           io_EOF)) ''pkg.deb''
       = ([], Returns (Inl (Wrapped (External ''unexpected EOF'')
                              ''Cannot read DEB version string'')))"
proof -
  let ?h = "\<lparr>hdr_Name = ''debian-binary'', hdr_Size = 6\<rparr>"
  let ?content = "[CHR 0x20, CHR 0x09] @ ''2.0'' @ [LF]"
  let ?b = "(?content, io_EOF)"
  let ?ch = "\<lparr>hdr_Name = ''control.tar.gz'', hdr_Size = 2\<rparr>"
  let ?cb = "(''gz'', io_EOF)"
  let ?dh = "\<lparr>hdr_Name = ''data.tar.gz'', hdr_Size = 4\<rparr>"
  let ?db = "(''data'', io_EOF)"
  let ?inner = "([sample_member ''./control'' (''Package: tool'' @ [LF] @ ''Version: 1.0'' @ [LF])],
           io_EOF)"
  let ?outer = "([(?h, ?b), sample_member ''control.tar.gz'' ''gz'',
            sample_member ''data.tar.gz'' ''data''], io_EOF)"
  let ?c = "sample_collaborators ?outer ?inner"
  let ?file = "\<lparr>file_Stat = Inr 1700000000, file_ar = ?outer\<rparr>"
  let ?new = "new_DEBPackage ''pkg.deb'' 1700000000"
  let ?deb = "?new\<lparr>DebVersion := ''2.0'', Name := ''tool'', Version := ''1.0''\<rparr>"
  let ?outer2 = "([sample_member ''_gpgorigin'' ''sig'', (?h, ?b),
            sample_member ''control.tar.xz'' ''xz''], io_EOF)"
  let ?c2 = "sample_collaborators ?outer2
          ([sample_member ''./control'' (''Package: tool'' @ [LF])], io_EOF)"
  let ?file2 = "\<lparr>file_Stat = Inr 1700000000, file_ar = ?outer2\<rparr>"
  let ?deb2 = "?new\<lparr>DebVersion := ''2.0'', Name := ''tool''\<rparr>"
  let ?bad = "(''2.'', External ''unexpected EOF'')"
  let ?outer3 = "([(?h, ?bad), sample_member ''control.tar.gz'' ''gz'',
            sample_member ''data.tar.gz'' ''data''], io_EOF)"
  let ?c3 = "sample_collaborators ?outer3 ?inner"
  let ?file3 = "\<lparr>file_Stat = Inr 1700000000, file_ar = ?outer3\<rparr>"
  have h1: "hdr_Name ?h = ''debian-binary''" by simp
  have h2: "declared_content (?h, ?b) = (?content, io_EOF)" by code_simp
  have h3: "CHR 0x00 \<notin> set ?content" by (simp add: LF_def)
  have h4: "list_all isASCII ?content" by code_simp
  have h5: "trimmed ?content = ''2.0''" by code_simp
  note inst = C4_version_token [OF h1 h2 h3]
  from inst h4 have "TrimSpace ?content = trimmed ?content" by blast
  with h5 have t: "TrimSpace ?content = ''2.0''" by simp
  have a1: "os_Open ?c ''pkg.deb'' = Inr ?file" by (simp add: sample_collaborators_def)
  have a2: "file_Stat ?file = Inr 1700000000" by simp
  have a3: "file_ar ?file = ((?h, ?b) # (?ch, ?cb) # (?dh, ?db) # [], io_EOF)"
    by (simp add: sample_member_def)
  have a4: "hdr_Name ?ch = ''control.tar.gz''" by simp
  have a5: "parse_control_tar_gz ?c (?new\<lparr>DebVersion := TrimSpace ?content\<rparr>)
      (declared_content (?ch, ?cb)) = Returns (?deb, None)" by code_simp
  have a6: "hdr_Name ?dh \<in> set data_member_names" by (simp add: data_member_names_def)
  from inst [of _ ?c "''pkg.deb''" _ _ _ ?file 1700000000 _ _ ?deb ?ch ?cb ?dh ?db "[]"]
    a1 a2 a3 a4 a5 a6
  have ok: "Parse ?c ''pkg.deb'' = ([], Returns (Inr ?deb))" by blast
  have b1: "os_Open ?c2 ''pkg.deb'' = Inr ?file2" by (simp add: sample_collaborators_def)
  have b2: "file_Stat ?file2 = Inr 1700000000" by simp
  have b3: "file_ar ?file2
      = ([sample_member ''_gpgorigin'' ''sig''] @ (?h, ?b) # [sample_member ''control.tar.xz'' ''xz''],
         io_EOF)" by simp
  have b4: "list_all (\<lambda>m. hdr_Name (fst m) \<notin> set data_member_names)
      [sample_member ''_gpgorigin'' ''sig'']"
    by (simp add: sample_member_def data_member_names_def)
  have b5: "list_all (\<lambda>m. hdr_Name (fst m) \<noteq> ''debian-binary'')
      [sample_member ''control.tar.xz'' ''xz'']"
    by (simp add: sample_member_def)
  have b6: "Parse ?c2 ''pkg.deb'' = ([''_gpgorigin''], Returns (Inr ?deb2))" by code_simp
  from inst [of _ ?c2 "''pkg.deb''" _ "[sample_member ''control.tar.xz'' ''xz'']" io_EOF
      ?file2 1700000000 "[sample_member ''_gpgorigin'' ''sig'']" "[''_gpgorigin'']" ?deb2]
    b1 b2 b3 b4 b5 b6
  have anywhere: "DebVersion ?deb2 = TrimSpace ?content" by blast
  have g2: "declared_content (?h, ?bad) = (''2.'', External ''unexpected EOF'')" by code_simp
  have g3: "CHR 0x00 \<notin> set ''2.''" by simp
  have g4: "External ''unexpected EOF'' \<noteq> io_EOF" by simp
  have c1: "os_Open ?c3 ''pkg.deb'' = Inr ?file3" by (simp add: sample_collaborators_def)
  have c2: "file_Stat ?file3 = Inr 1700000000" by simp
  have c3: "file_ar ?file3 = ((?h, ?bad) # [sample_member ''control.tar.gz'' ''gz'',
            sample_member ''data.tar.gz'' ''data''], io_EOF)" by simp
  from C4_version_token [OF h1 g2 g3, of _ ?c3 "''pkg.deb''" _ _ _ ?file3 1700000000]
    g4 c1 c2 c3
  have bad: "Parse ?c3 ''pkg.deb''
      = ([], Returns (Inl (Wrapped (External ''unexpected EOF'')
                              ''Cannot read DEB version string'')))" by blast
  from h2 h3 h4 h5 t ok b6 anywhere g2 bad show ?thesis by (intro conjI)
qed

text \<open>
  C5. After a \<open>Description: value\<close> line, the lines that begin with a space, a tab, a
  carriage return or a newline are appended to the description as they are, and the
  first later line that does not begin so ends the continuation and is read as a field
  line. The code does this for every line that is not empty
  (\<open>description_continuation\<close>, \<open>control_line_continuation_ends\<close>). An empty line does
  not begin with such a character either, and there the code panics, by the defect of
  C2: in the control text \<open>Description: tool\<close>, \<open> does things\<close>, an empty line,
  \<open>Package: tool\<close>, the description is never returned and the package line is never
  read. Without the empty line the same text parses as the claim says.
\<close>

theorem C5_continuation_ends_in_panic:
  "parse_control (new_DEBPackage ''pkg.deb'' 1700000000)
     (''Description: tool'' @ [LF] @ '' does things'' @ [LF] @ [LF] @ ''Package: tool'' @ [LF],
      io_EOF)
   = Panics ''runtime error: slice bounds out of range [:1] with length 0''
   \<and> parse_control (new_DEBPackage ''pkg.deb'' 1700000000)
     (''Description: tool'' @ [LF] @ '' does things'' @ [LF] @ ''Package: tool'' @ [LF], io_EOF)
   = Returns (new_DEBPackage ''pkg.deb'' 1700000000
                \<lparr>Description := ''tool does things'', Name := ''tool''\<rparr>, None)"
  by code_simp

text \<open>
  C6. When the walk of the outer archive meets a member named \<open>data.tar.gz\<close>,
  \<open>data.tar.xz\<close> or \<open>data.tar.zst\<close>, it ends at once and returns the record gathered
  so far, with success. The result is the one the walk gives when the archive ends
  before that member: it depends neither on the content of the member, nor on the
  members after it, nor on how the archive ends, so none of them is read or
  decompressed. For an opened file, \<open>Parse\<close> returns what the walk over the members
  before the data member returns.
\<close>

theorem C6_walk_stops_at_data:
  assumes "hdr_Name header = ''data.tar.gz'' \<or> hdr_Name header = ''data.tar.xz''
           \<or> hdr_Name header = ''data.tar.zst''"
  shows "Parse_members c filename deb out ((header, body) # rest) err = (out, Returns (Inr deb))
       \<and> Parse_members c filename deb out (pre @ (header, body) # rest) err
           = Parse_members c filename deb out pre io_EOF
       \<and> Parse_members c filename deb out (pre @ (header, body) # rest) err
           = Parse_members c filename deb out (pre @ (header, body') # rest') err'
       \<and> (os_Open c filename = Inr file \<and> file_Stat file = Inr modtime
           \<and> file_ar file = (pre @ (header, body) # rest, err)
           \<longrightarrow> Parse c filename
               = Parse_members c filename (new_DEBPackage filename modtime) [] pre io_EOF)"
proof -
  from assms have data: "hdr_Name header \<in> set data_member_names"
    by (auto simp: data_member_names_def)
  have stop: "Parse_members c filename deb out (pre @ (header, body) # rest) err
           = Parse_members c filename deb out pre io_EOF" for deb out body rest err
    by (rule Parse_members_stop [OF data])
  have "Parse c filename = Parse_members c filename (new_DEBPackage filename modtime) [] pre io_EOF"
    if "os_Open c filename = Inr file \<and> file_Stat file = Inr modtime
           \<and> file_ar file = (pre @ (header, body) # rest, err)"
    using that by (simp add: Parse_single stop)
  with stop Parse_members_data [OF data, of c filename deb out body rest err] show ?thesis
    by simp
qed

theorem C6_walk_stops_at_data_witness:
  "hdr_Name \<lparr>hdr_Name = ''data.tar.gz'', hdr_Size = 7\<rparr> = ''data.tar.gz''
   \<and> os_Open (sample_collaborators
          ([sample_member ''debian-binary'' (''2.0'' @ [LF]), sample_member ''control.tar.gz'' ''gz'']
           @ (\<lparr>hdr_Name = ''data.tar.gz'', hdr_Size = 7\<rparr>, (''payload'', External ''read error''))
           # [sample_member ''control.tar.xz'' ''xz''],
           External ''unexpected EOF'')
          ([sample_member ''./control'' (''Package: tool'' @ [LF])], io_EOF)) ''pkg.deb''
       = Inr \<lparr>file_Stat = Inr 1700000000,
              file_ar =
                ([sample_member ''debian-binary'' (''2.0'' @ [LF]),
                  sample_member ''control.tar.gz'' ''gz'']
                 @ (\<lparr>hdr_Name = ''data.tar.gz'', hdr_Size = 7\<rparr>,
                    (''payload'', External ''read error''))
                 # [sample_member ''control.tar.xz'' ''xz''],
                 External ''unexpected EOF'')\<rparr>
   \<and> Parse (sample_collaborators
          ([sample_member ''debian-binary'' (''2.0'' @ [LF]), sample_member ''control.tar.gz'' ''gz'']
           @ (\<lparr>hdr_Name = ''data.tar.gz'', hdr_Size = 7\<rparr>, (''payload'', External ''read error''))
           # [sample_member ''control.tar.xz'' ''xz''],
           External ''unexpected EOF'')
          ([sample_member ''./control'' (''Package: tool'' @ [LF])], io_EOF)) ''pkg.deb''
     = ([], Returns (Inr (new_DEBPackage ''pkg.deb'' 1700000000
                            \<lparr>DebVersion := ''2.0'', Name := ''tool''\<rparr>)))"
proof -
  let ?pre = "[sample_member ''debian-binary'' (''2.0'' @ [LF]), sample_member ''control.tar.gz'' ''gz'']"
  let ?h = "\<lparr>hdr_Name = ''data.tar.gz'', hdr_Size = 7\<rparr>"
  let ?b = "(''payload'', External ''read error'')"
  let ?rest = "[sample_member ''control.tar.xz'' ''xz'']"
  let ?err = "External ''unexpected EOF''"
  let ?outer = "(?pre @ (?h, ?b) # ?rest, ?err)"
  let ?c = "sample_collaborators ?outer
          ([sample_member ''./control'' (''Package: tool'' @ [LF])], io_EOF)"
  let ?file = "\<lparr>file_Stat = Inr 1700000000, file_ar = ?outer\<rparr>"
  have h: "hdr_Name ?h = ''data.tar.gz''" by simp
  then have names: "hdr_Name ?h = ''data.tar.gz'' \<or> hdr_Name ?h = ''data.tar.xz''
      \<or> hdr_Name ?h = ''data.tar.zst''" by (rule disjI1)
  have o: "os_Open ?c ''pkg.deb'' = Inr ?file" by (simp add: sample_collaborators_def)
  have s: "file_Stat ?file = Inr 1700000000" by simp
  have f: "file_ar ?file = (?pre @ (?h, ?b) # ?rest, ?err)" by simp
  from C6_walk_stops_at_data [OF names, of ?c "''pkg.deb''" _ _ ?b ?rest ?err ?pre _ _ _
      ?file 1700000000] o s f
  have "Parse ?c ''pkg.deb''
      = Parse_members ?c ''pkg.deb'' (new_DEBPackage ''pkg.deb'' 1700000000) [] ?pre io_EOF"
    by blast
  also have "\<dots> = ([], Returns (Inr (new_DEBPackage ''pkg.deb'' 1700000000
      \<lparr>DebVersion := ''2.0'', Name := ''tool''\<rparr>)))"
    by code_simp
  finally have r: "Parse ?c ''pkg.deb'' = ([], Returns (Inr (new_DEBPackage ''pkg.deb'' 1700000000
      \<lparr>DebVersion := ''2.0'', Name := ''tool''\<rparr>)))" .
  from h o r show ?thesis by (intro conjI)
qed

text \<open>
  C7. Every field of the record but the file path and the modification time is meant
  to be optional: an archive without a control member, and a control text without a
  given field, should parse with success and leave the field at its zero value. The
  code does so for an archive without a control member, and for a control text as long
  as the control-text parser does not panic (\<open>fields_optional\<close>). It panics, by the
  defect of C2, on a control text without a package name whose description is followed
  by an empty line: for the usual layout of \<open>debian-binary\<close>, \<open>control.tar.gz\<close> and
  \<open>data.tar.gz\<close> with the control text \<open>Version: 1.0\<close>, \<open>Description: tool\<close>, empty
  line, \<open>Parse\<close> returns no record. Without the empty line the same archive parses and
  the package name is empty.
\<close>

theorem C7_absent_field_text_panics:
  "list_all (\<lambda>l. field_name l \<noteq> ''Package'')
     (fst (Scanner (''Version: 1.0'' @ [LF] @ ''Description: tool'' @ [LF] @ [LF], io_EOF)))
   \<and> Parse (sample_collaborators
         ([sample_member ''debian-binary'' (''2.0'' @ [LF]),
           sample_member ''control.tar.gz'' ''gz'',
           sample_member ''data.tar.gz'' ''payload''], io_EOF)
         ([sample_member ''./control''
             (''Version: 1.0'' @ [LF] @ ''Description: tool'' @ [LF] @ [LF])], io_EOF))
       ''pkg.deb''
     = ([], Panics ''runtime error: slice bounds out of range [:1] with length 0'')
   \<and> Parse (sample_collaborators
         ([sample_member ''debian-binary'' (''2.0'' @ [LF]),
           sample_member ''control.tar.gz'' ''gz'',
           sample_member ''data.tar.gz'' ''payload''], io_EOF)
         ([sample_member ''./control''
             (''Version: 1.0'' @ [LF] @ ''Description: tool'' @ [LF])], io_EOF))
       ''pkg.deb''
     = ([], Returns (Inr (new_DEBPackage ''pkg.deb'' 1700000000
                            \<lparr>DebVersion := ''2.0'', Description := ''tool'', Version := ''1.0''\<rparr>)))
   \<and> control_field ''Package''
        (new_DEBPackage ''pkg.deb'' 1700000000
           \<lparr>DebVersion := ''2.0'', Description := ''tool'', Version := ''1.0''\<rparr>)
     = Some (Text [])"
  by code_simp

text \<open>
  C8. For a control text containing the line \<open>Depends: a, b, c\<close> the dependency sequence
  is \<open>["a", "b", "c"]\<close>; in general the value of a \<open>Depends\<close> line is split at every
  occurrence of the separator \<open>", "\<close>. Whatever the record and the continuation flag
  are, the line \<open>Depends: a, b, c\<close> sets the sequence to those three names, and a line
  \<open>Depends: v\<close> sets it to the pieces of the trimmed value. The pieces joined with the
  separator give the value back and no piece contains the separator. When the scanner
  delivers the lines of a control text, the parser returns without error and no line
  after the \<open>Depends\<close> line is a \<open>Depends\<close> field, the returned record holds the pieces
  of that line.
\<close>

theorem C8_depends_split:
  "control_line deb d ''Depends: a, b, c'' = Returns (deb\<lparr>Depends := [''a'', ''b'', ''c'']\<rparr>, False, None)
   \<and> control_line deb d (''Depends: '' @ v)
       = Returns (deb\<lparr>Depends := SplitN (TrimSpace v) '', '' (- 1)\<rparr>, False, None)
   \<and> Join (SplitN w '', '' (- 1)) '', '' = w
   \<and> (\<forall>x \<in> set (SplitN w '', '' (- 1)). Index x '', '' = None)
   \<and> (Scanner reader = (pre @ (''Depends: '' @ v) # post, None)
      \<and> parse_control deb reader = Returns (deb', None)
      \<and> ''Depends'' \<notin> field_name ` set post
      \<longrightarrow> Depends deb' = SplitN (TrimSpace v) '', '' (- 1))"
proof (intro conjI impI)
  have abc: "SplitN (TrimSpace ''a, b, c'') '', '' (- 1) = [''a'', ''b'', ''c'']"
    by code_simp
  show "control_line deb d ''Depends: a, b, c'' = Returns (deb\<lparr>Depends := [''a'', ''b'', ''c'']\<rparr>, False, None)"
    using control_line_Depends [of deb d "''a, b, c''"] by (simp only: abc append.simps)
  show "control_line deb d (''Depends: '' @ v)
       = Returns (deb\<lparr>Depends := SplitN (TrimSpace v) '', '' (- 1)\<rparr>, False, None)"
    by (rule control_line_Depends)
  show "Join (SplitN w '', '' (- 1)) '', '' = w"
    by (simp add: SplitN_all genSplit_Count_Join)
  show "\<forall>x \<in> set (SplitN w '', '' (- 1)). Index x '', '' = None"
    using genSplit_Count_pieces [of "'', ''" _ w] by (simp add: SplitN_all)
next
  assume a: "Scanner reader = (pre @ (''Depends: '' @ v) # post, None)
      \<and> parse_control deb reader = Returns (deb', None)
      \<and> ''Depends'' \<notin> field_name ` set post"
  have "control_field ''Depends'' deb' = Some (List (SplitN (TrimSpace v) '', '' (- 1)))"
  proof (rule parse_control_last_field)
    show "Scanner reader = (pre @ (''Depends: '' @ v) # post, None)" using a by (rule conjunct1)
    show "parse_control deb reader = Returns (deb', None)" using a by (elim conjE)
    show "''Depends'' \<notin> field_name ` set post" using a by (elim conjE)
    show "control_line deb1 d1 (''Depends: '' @ v)
        = Returns (deb1\<lparr>Depends := SplitN (TrimSpace v) '', '' (- 1)\<rparr>, False, None)" for deb1 d1
      by (rule control_line_Depends)
    show "control_field ''Depends'' (deb1\<lparr>Depends := SplitN (TrimSpace v) '', '' (- 1)\<rparr>)
        = Some (List (SplitN (TrimSpace v) '', '' (- 1)))" for deb1
      by (simp add: control_field_def)
    show "\<not> False" by simp
  qed
  then show "Depends deb' = SplitN (TrimSpace v) '', '' (- 1)" by (simp add: control_field_def)
qed

theorem C8_depends_split_witness:
  "''b'' \<in> set (SplitN ''a, b, c'' '', '' (- 1)) \<and> Index ''b'' '', '' = None
   \<and> Scanner (''Package: tool'' @ [LF] @ ''Depends: a, b, c'' @ [LF] @ ''Version: 1.0'' @ [LF], io_EOF)
       = ([''Package: tool''] @ (''Depends: '' @ ''a, b, c'') # [''Version: 1.0''], None)
   \<and> parse_control (new_DEBPackage ''pkg.deb'' 0) (''Package: tool'' @ [LF] @ ''Depends: a, b, c'' @ [LF] @ ''Version: 1.0'' @ [LF], io_EOF)
       = Returns (new_DEBPackage ''pkg.deb'' 0\<lparr>Name := ''tool'', Depends := [''a'', ''b'', ''c''], Version := ''1.0''\<rparr>, None)
   \<and> ''Depends'' \<notin> field_name ` set [''Version: 1.0'']
   \<and> Depends (new_DEBPackage ''pkg.deb'' 0\<lparr>Name := ''tool'', Depends := [''a'', ''b'', ''c''], Version := ''1.0''\<rparr>) = SplitN (TrimSpace ''a, b, c'') '', '' (- 1)"
proof -
  let ?r = "(''Package: tool'' @ [LF] @ ''Depends: a, b, c'' @ [LF] @ ''Version: 1.0'' @ [LF], io_EOF)"
  let ?deb' = "new_DEBPackage ''pkg.deb'' 0\<lparr>Name := ''tool'', Depends := [''a'', ''b'', ''c''], Version := ''1.0''\<rparr>"
  have h1: "''b'' \<in> set (SplitN ''a, b, c'' '', '' (- 1))" by code_simp
  have h2: "Scanner ?r = ([''Package: tool''] @ (''Depends: '' @ ''a, b, c'') # [''Version: 1.0''], None)"
    by code_simp
  have h3: "parse_control (new_DEBPackage ''pkg.deb'' 0) ?r = Returns (?deb', None)"
    by code_simp
  have h4: "''Depends'' \<notin> field_name ` set [''Version: 1.0'']" by code_simp
  note inst = C8_depends_split [of "new_DEBPackage ''pkg.deb'' 0" False "''a, b, c''" "''a, b, c''"
      ?r "[''Package: tool'']" "[''Version: 1.0'']" ?deb']
  from inst h1 have c1: "Index ''b'' '', '' = None" by blast
  from inst h2 h3 h4 have c2: "Depends ?deb' = SplitN (TrimSpace ''a, b, c'') '', '' (- 1)"
    by blast
  from h1 c1 h2 h3 h4 c2 show ?thesis by (intro conjI)
qed

text \<open>
  C9. When the content of a \<open>debian-binary\<close> member holds a NUL byte, the read stops at
  that byte without an error, \<open>errors.Wrap\<close> of the \<open>nil\<close> error is \<open>nil\<close>, and
  \<open>parse_debian_binary\<close> returns with the record as it was: the walk goes on with an
  unchanged record, and an archive of this one member parses with success to a record
  whose version string is empty.
\<close>

theorem C9_sentinel_leaves_version_empty:
  assumes "hdr_Name header = ''debian-binary''"
    and "CHR 0x00 \<in> set (fst (io_LimitReader body (hdr_Size header)))"
  shows "parse_debian_binary deb (io_LimitReader body (hdr_Size header)) = (deb, None)
    \<and> Parse_members c filename deb out ((header, body) # rest) err
        = Parse_members c filename deb out rest err
    \<and> (os_Open c filename = Inr file \<and> file_Stat file = Inr modtime
        \<and> file_ar file = ([(header, body)], io_EOF)
        \<longrightarrow> Parse c filename = ([], Returns (Inr (new_DEBPackage filename modtime)))
          \<and> DebVersion (new_DEBPackage filename modtime) = [])"
proof (intro conjI impI)
  show sentinel: "parse_debian_binary deb (io_LimitReader body (hdr_Size header)) = (deb, None)" for deb
    using assms(2) by (rule parse_debian_binary_sentinel)
  show step: "Parse_members c filename deb out ((header, body) # rest) err
        = Parse_members c filename deb out rest err" for deb out rest err
    by (simp only: Parse_members_debian_binary [OF assms(1)] sentinel prod.case option.case)
  show "DebVersion (new_DEBPackage filename modtime) = []"
    by (simp add: new_DEBPackage_def)
  assume "os_Open c filename = Inr file \<and> file_Stat file = Inr modtime
        \<and> file_ar file = ([(header, body)], io_EOF)"
  then have "Parse c filename
      = Parse_members c filename (new_DEBPackage filename modtime) [] [(header, body)] io_EOF"
    by (simp add: Parse_single)
  also have "\<dots> = Parse_members c filename (new_DEBPackage filename modtime) [] [] io_EOF"
    by (rule step)
  also have "\<dots> = ([], Returns (Inr (new_DEBPackage filename modtime)))"
    by simp
  finally show "Parse c filename = ([], Returns (Inr (new_DEBPackage filename modtime)))" .
qed

theorem C9_sentinel_leaves_version_empty_witness:
  "hdr_Name \<lparr>hdr_Name = ''debian-binary'', hdr_Size = 5\<rparr> = ''debian-binary''
   \<and> CHR 0x00 \<in> set (fst (io_LimitReader (''2.0'' @ [CHR 0x00, LF], io_EOF)
          (hdr_Size \<lparr>hdr_Name = ''debian-binary'', hdr_Size = 5\<rparr>)))
   \<and> os_Open (sample_collaborators
          ([(\<lparr>hdr_Name = ''debian-binary'', hdr_Size = 5\<rparr>, (''2.0'' @ [CHR 0x00, LF], io_EOF))], io_EOF)
          ([], io_EOF)) ''pkg.deb''
       = Inr \<lparr>file_Stat = Inr 1700000000,
              file_ar = ([(\<lparr>hdr_Name = ''debian-binary'', hdr_Size = 5\<rparr>,
                           (''2.0'' @ [CHR 0x00, LF], io_EOF))], io_EOF)\<rparr>
   \<and> Parse (sample_collaborators
          ([(\<lparr>hdr_Name = ''debian-binary'', hdr_Size = 5\<rparr>, (''2.0'' @ [CHR 0x00, LF], io_EOF))], io_EOF)
          ([], io_EOF)) ''pkg.deb''
       = ([], Returns (Inr (new_DEBPackage ''pkg.deb'' 1700000000)))
   \<and> DebVersion (new_DEBPackage ''pkg.deb'' 1700000000) = []"
proof -
  let ?h = "\<lparr>hdr_Name = ''debian-binary'', hdr_Size = 5\<rparr>"
  let ?b = "(''2.0'' @ [CHR 0x00, LF], io_EOF)"
  let ?outer = "([(?h, ?b)], io_EOF)"
  let ?c = "sample_collaborators ?outer ([], io_EOF)"
  let ?file = "\<lparr>file_Stat = Inr 1700000000, file_ar = ?outer\<rparr>"
  have h1: "hdr_Name ?h = ''debian-binary''" by simp
  have h2: "CHR 0x00 \<in> set (fst (io_LimitReader ?b (hdr_Size ?h)))"
    by (simp add: io_LimitReader_def)
  have h3: "os_Open ?c ''pkg.deb'' = Inr ?file" by (simp add: sample_collaborators_def)
  have h4: "file_Stat ?file = Inr 1700000000" by simp
  have h5: "file_ar ?file = ([(?h, ?b)], io_EOF)" by simp
  from C9_sentinel_leaves_version_empty [OF h1 h2, of _ ?c "''pkg.deb''" _ _ _ ?file 1700000000]
    h3 h4 h5
  have c1: "Parse ?c ''pkg.deb'' = ([], Returns (Inr (new_DEBPackage ''pkg.deb'' 1700000000)))"
    and c2: "DebVersion (new_DEBPackage ''pkg.deb'' 1700000000) = []"
    by blast+
  from h1 h2 h3 c1 c2 show ?thesis by (intro conjI)
qed

text \<open>
  C10. A control line made of a list field name (\<open>Depends\<close>, \<open>Recommends\<close> or
  \<open>Built-Using\<close>), the separator \<open>": "\<close> and an empty or all-whitespace value, such
  as \<open>Depends: \<close>, makes the sequence of that field the one-element list holding the
  empty string, not the empty list. A value of ASCII white space only trims to the empty
  string, and for every value that trims to the empty string each of the three lines
  stores the list \<open>[""]\<close>; the control text \<open>Depends: \<close> parses to a record with that
  list.
\<close>

theorem C10_empty_list_value:
  "(list_all asciiSpace v \<longrightarrow> TrimSpace v = [])
   \<and> (TrimSpace v = [] \<longrightarrow>
        control_line deb d (''Depends: '' @ v) = Returns (deb\<lparr>Depends := [[]]\<rparr>, False, None)
      \<and> control_line deb d (''Recommends: '' @ v) = Returns (deb\<lparr>Recommends := [[]]\<rparr>, False, None)
      \<and> control_line deb d (''Built-Using: '' @ v) = Returns (deb\<lparr>BuiltUsing := [[]]\<rparr>, False, None))
   \<and> parse_control deb (''Depends: '' @ [LF], io_EOF) = Returns (deb\<lparr>Depends := [[]]\<rparr>, None)"
proof (intro conjI impI)
  show "TrimSpace v = []" if "list_all asciiSpace v" using that by (rule TrimSpace_ascii)
  show "control_line deb d (''Depends: '' @ v) = Returns (deb\<lparr>Depends := [[]]\<rparr>, False, None)"
    if "TrimSpace v = []" using that by (simp only: control_line_Depends SplitN_empty)
  show "control_line deb d (''Recommends: '' @ v) = Returns (deb\<lparr>Recommends := [[]]\<rparr>, False, None)"
    if "TrimSpace v = []" using that by (simp only: control_line_Recommends SplitN_empty)
  show "control_line deb d (''Built-Using: '' @ v) = Returns (deb\<lparr>BuiltUsing := [[]]\<rparr>, False, None)"
    if "TrimSpace v = []" using that by (simp only: control_line_BuiltUsing SplitN_empty)
  have "TrimSpace [] = []" by code_simp
  then have "control_line deb False (''Depends: '' @ []) = Returns (deb\<lparr>Depends := [[]]\<rparr>, False, None)"
    by (simp only: control_line_Depends SplitN_empty)
  then show "parse_control deb (''Depends: '' @ [LF], io_EOF) = Returns (deb\<lparr>Depends := [[]]\<rparr>, None)"
    unfolding parse_control_def Scanner_Depends_only by (simp add: errors_Wrap_def)
qed

theorem C10_empty_list_value_witness:
  "list_all asciiSpace [CHR 0x20, CHR 0x09] \<and> TrimSpace [CHR 0x20, CHR 0x09] = []
   \<and> control_line (new_DEBPackage ''pkg.deb'' 0) False (''Depends: '' @ [CHR 0x20, CHR 0x09])
      = Returns (new_DEBPackage ''pkg.deb'' 0\<lparr>Depends := [[]]\<rparr>, False, None)"
proof -
  have h: "list_all asciiSpace [CHR 0x20, CHR 0x09]" by code_simp
  note inst = C10_empty_list_value [of "[CHR 0x20, CHR 0x09]" "new_DEBPackage ''pkg.deb'' 0" False]
  from inst h have t: "TrimSpace [CHR 0x20, CHR 0x09] = []" by blast
  from inst t have "control_line (new_DEBPackage ''pkg.deb'' 0) False (''Depends: '' @ [CHR 0x20, CHR 0x09])
      = Returns (new_DEBPackage ''pkg.deb'' 0\<lparr>Depends := [[]]\<rparr>, False, None)" by blast
  with h t show ?thesis by (intro conjI)
qed

end
